theory Spec2Isabelle
  imports Main "HOL-Library.Sublist"
begin

section \<open>JavaScript values used by the model selector\<close>

text \<open>
  The component under study is \<^verbatim>\<open>src/components/AIModelSelectorEnhanced.tsx\<close>.
  Strings are lists of code units; \<^const>\<open>prefix\<close> is \<^verbatim>\<open>startsWith\<close> and
  \<^const>\<open>sublist\<close> (a contiguous sublist) is \<^verbatim>\<open>includes\<close>.
\<close>

definition js_whitespace :: "char \<Rightarrow> bool" where
  "js_whitespace c \<longleftrightarrow>
     c \<in> set [CHR 0x09, CHR 0x0A, CHR 0x0B, CHR 0x0C, CHR 0x0D, CHR 0x20, CHR 0xA0]"

text \<open>\<^verbatim>\<open>String.prototype.trim\<close>.\<close>

definition js_trim :: "string \<Rightarrow> string" where
  "js_trim s = rev (dropWhile js_whitespace (rev (dropWhile js_whitespace s)))"

text \<open>
  \<^verbatim>\<open>String.prototype.toLowerCase\<close> on the ASCII letters; other code units are kept.
  The only use is in front of the icon rules, whose patterns are ASCII.
\<close>

definition lower_char :: "char \<Rightarrow> char" where
  "lower_char c =
     (case map_of (zip ''ABCDEFGHIJKLMNOPQRSTUVWXYZ'' ''abcdefghijklmnopqrstuvwxyz'') c of
        Some l \<Rightarrow> l
      | None \<Rightarrow> c)"

definition toLowerCase :: "string \<Rightarrow> string" where
  "toLowerCase s = map lower_char s"

text \<open>The decimal rendering of a status code inside a template literal.\<close>

definition digit_char :: "nat \<Rightarrow> char" where
  "digit_char d = ''0123456789'' ! d"

fun number_toString :: "nat \<Rightarrow> string" where
  "number_toString n =
     (if n < 10 then [digit_char n] else number_toString (n div 10) @ [digit_char (n mod 10)])"

declare number_toString.simps [simp del]

text \<open>The class \<^verbatim>\<open>\w\<close> of regular expressions: letters, digits and the underscore.\<close>

definition word_char :: "char \<Rightarrow> bool" where
  "word_char c \<longleftrightarrow>
     c \<in> set (''abcdefghijklmnopqrstuvwxyz'' @ ''ABCDEFGHIJKLMNOPQRSTUVWXYZ'' @ ''0123456789_'')"

text \<open>
  \<^verbatim>\<open>/\b(401|403)\b/.test(message)\<close>: the flag says whether the code unit before the
  current position is a word character (false at the start of the string). Both
  alternatives consist of word characters, so the leading \<^verbatim>\<open>\b\<close> asks for a non-word
  predecessor and the trailing one for a non-word successor or the end.
\<close>

fun unauthorized_from :: "bool \<Rightarrow> string \<Rightarrow> bool" where
  "unauthorized_from prev [] = False"
| "unauthorized_from prev (c # cs) =
     ((\<not> prev \<and> (prefix ''401'' (c # cs) \<or> prefix ''403'' (c # cs)) \<and>
        (case drop 3 (c # cs) of [] \<Rightarrow> True | d # _ \<Rightarrow> \<not> word_char d))
      \<or> unauthorized_from (word_char c) cs)"

definition unauthorized_test :: "string \<Rightarrow> bool" where
  "unauthorized_test message = unauthorized_from False message"

text \<open>
  A parsed JSON value. The loader only tests numbers for truthiness and passes them on,
  so integers stand for JSON numbers. An object is the list of its own properties.
\<close>

datatype json =
    JNull
  | JBool bool
  | JNumber int
  | JString string
  | JArray "json list"
  | JObject "(string \<times> json) list"

fun truthy :: "json \<Rightarrow> bool" where
  "truthy JNull = False"
| "truthy (JBool b) = b"
| "truthy (JNumber n) = (n \<noteq> 0)"
| "truthy (JString s) = (s \<noteq> [])"
| "truthy (JArray xs) = True"
| "truthy (JObject kvs) = True"

text \<open>\<^verbatim>\<open>item?.key\<close>: \<open>None\<close> is \<^verbatim>\<open>undefined\<close>.\<close>

fun js_get :: "json \<Rightarrow> string \<Rightarrow> json option" where
  "js_get (JObject kvs) k = map_of kvs k"
| "js_get j k = None"

text \<open>\<^verbatim>\<open>a || b\<close> on possibly undefined values.\<close>

definition js_or :: "json option \<Rightarrow> json option \<Rightarrow> json option" where
  "js_or a b = (case a of Some v \<Rightarrow> if truthy v then Some v else b | None \<Rightarrow> b)"

section \<open>Model options and provider icons\<close>

record CloudModelOption =
  "value" :: json
  label :: json
  description :: "json option"
  icon :: "string option"
  ownedBy :: "string option"

definition ICON_BASE_PATH :: string where
  "ICON_BASE_PATH = ''/assets/icons/providers''"

definition PROVIDER_ICON_MAP :: "(string \<times> string) list" where
  "PROVIDER_ICON_MAP =
     [(''openai'', ''openai''), (''anthropic'', ''anthropic''), (''gemini'', ''gemini''),
      (''groq'', ''groq''), (''llama'', ''llama''), (''mistral'', ''mistral''),
      (''qwen'', ''qwen''), (''openai-oss'', ''openai-oss'')]"

text \<open>
  Every rule's regular expression is an alternation of literals without anchors, so a
  rule is the list of its alternatives with its icon, and it matches a string that
  contains one of them.
\<close>

type_synonym icon_rule = "string list \<times> string"

definition OWNED_BY_ICON_RULES :: "icon_rule list" where
  "OWNED_BY_ICON_RULES =
     [([''openai'', ''system'', ''default'', ''gpt'', ''davinci''], ''openai''),
      ([''azure''], ''openai''),
      ([''anthropic'', ''claude''], ''anthropic''),
      ([''google'', ''gemini''], ''gemini''),
      ([''meta'', ''llama''], ''llama''),
      ([''mistral''], ''mistral''),
      ([''qwen'', ''ali'', ''tongyi''], ''qwen''),
      ([''openrouter'', ''oss''], ''openai-oss'')]"

definition match_test :: "icon_rule \<Rightarrow> string \<Rightarrow> bool" where
  "match_test rule s = list_ex (\<lambda>alt. sublist alt s) (fst rule)"

definition icon_path :: "string \<Rightarrow> string" where
  "icon_path iconId = ICON_BASE_PATH @ ''/'' @ iconId @ ''.svg''"

definition getProviderIconPath :: "string \<Rightarrow> string" where
  "getProviderIconPath providerId =
     icon_path (case map_of PROVIDER_ICON_MAP providerId of Some i \<Rightarrow> i | None \<Rightarrow> ''openai'')"

definition resolveOwnedByIcon :: "string option \<Rightarrow> string option" where
  "resolveOwnedByIcon owner =
     (case owner of
        None \<Rightarrow> None
      | Some s \<Rightarrow>
          if s = [] then None
          else (case find (\<lambda>rule. match_test rule (toLowerCase s)) OWNED_BY_ICON_RULES of
                  Some rule \<Rightarrow> Some (icon_path (snd rule))
                | None \<Rightarrow> None))"

section \<open>Reading the response payload\<close>

definition rawModels :: "json \<Rightarrow> json list" where
  "rawModels payload =
     (case js_get payload ''data'' of
        Some (JArray xs) \<Rightarrow> xs
      | _ \<Rightarrow> (case js_get payload ''models'' of Some (JArray ys) \<Rightarrow> ys | _ \<Rightarrow> []))"

text \<open>The callback of \<^verbatim>\<open>rawModels.map\<close>; \<open>None\<close> is its \<^verbatim>\<open>null\<close>.\<close>

definition mapModel :: "json \<Rightarrow> CloudModelOption option" where
  "mapModel item =
     (case js_or (js_get item ''id'') (js_get item ''name'') of
        None \<Rightarrow> None
      | Some v \<Rightarrow>
          if \<not> truthy v then None
          else
            let owner = (case js_get item ''owned_by'' of Some (JString s) \<Rightarrow> Some s | _ \<Rightarrow> None)
            in Some \<lparr>value = v,
                 label = (case js_or (js_or (js_get item ''id'') (js_get item ''name'')) (Some v) of
                            Some l \<Rightarrow> l | None \<Rightarrow> v),
                 description =
                   js_or (js_get item ''description'')
                     (case owner of
                        Some s \<Rightarrow> if s \<noteq> [] then Some (JString (''Owner: '' @ s)) else None
                      | None \<Rightarrow> None),
                 icon = resolveOwnedByIcon owner,
                 ownedBy = owner\<rparr>)"

text \<open>\<^verbatim>\<open>rawModels.map(...).filter(Boolean)\<close>.\<close>

definition mappedModels :: "json \<Rightarrow> CloudModelOption list" where
  "mappedModels payload = List.map_filter mapModel (rawModels payload)"

section \<open>The component's state\<close>

text \<open>
  The properties the host passes in and the loader callback closes over (its dependency
  list). The host owns them; the component asks for a change through a setter.
\<close>

record props =
  cloudReasoningBaseUrl :: string
  openaiApiKey :: string
  reasoningModel :: string

text \<open>
  The helpers imported from \<^verbatim>\<open>../config/constants\<close> are not part of the file under
  study; the development takes them as parameters.
\<close>

record constants =
  normalizeBaseUrl :: "string \<Rightarrow> string"
  buildApiUrl :: "string \<Rightarrow> string \<Rightarrow> string"

text \<open>A call of \<^verbatim>\<open>fetch(modelsUrl, {method: 'GET', headers})\<close>.\<close>

record fetch_call =
  fetch_url :: string
  fetch_authorization :: "string option"

text \<open>
  The React state and the refs of the component, together with what it has sent out:
  the network requests and the calls of the host's \<^verbatim>\<open>setReasoningModel\<close>.
  \<open>customModelOptionsRef\<close> is the identity of the array held in \<open>customModelOptions\<close>:
  every \<^verbatim>\<open>setCustomModelOptions\<close> of the source stores a fresh array.
\<close>

record component =
  customModelOptions :: "CloudModelOption list"
  customModelOptionsRef :: nat
  customModelsLoading :: bool
  customModelsError :: "string option"
  customBaseInput :: string
  selectedCloudProvider :: string
  lastLoadedBaseRef :: "string option"
  pendingBaseRef :: "string option"
  isMountedRef :: bool
  latestReasoningBaseRef :: string
  fetchCalls :: "fetch_call list"
  setReasoningModelCalls :: "json list"

definition setCustomModelOptions :: "CloudModelOption list \<Rightarrow> component \<Rightarrow> component" where
  "setCustomModelOptions models s =
     s\<lparr>customModelOptions := models, customModelOptionsRef := Suc (customModelOptionsRef s)\<rparr>"

definition setReasoningModel :: "json \<Rightarrow> component \<Rightarrow> component" where
  "setReasoningModel model s = s\<lparr>setReasoningModelCalls := setReasoningModelCalls s @ [model]\<rparr>"

text \<open>The cleanup of the mount effect, and the effect that follows the normalized base.\<close>

definition unmount :: "component \<Rightarrow> component" where
  "unmount s = s\<lparr>isMountedRef := False\<rparr>"

definition normalizedCustomReasoningBase :: "constants \<Rightarrow> props \<Rightarrow> string" where
  "normalizedCustomReasoningBase cfg p = normalizeBaseUrl cfg (cloudReasoningBaseUrl p)"

definition effect_latestReasoningBase :: "constants \<Rightarrow> props \<Rightarrow> component \<Rightarrow> component" where
  "effect_latestReasoningBase cfg p s =
     s\<lparr>latestReasoningBaseRef := normalizedCustomReasoningBase cfg p\<rparr>"

section \<open>The loader \<^verbatim>\<open>loadRemoteModels\<close>\<close>

text \<open>
  The loader is an asynchronous function. Each \<^verbatim>\<open>await\<close> is a point where it hands
  control back, so it is modelled by one function for the code up to the first
  \<^verbatim>\<open>await\<close> and one for each resumption; between them any other event of the
  component may change the state. What one invocation carries across its suspensions:
\<close>

record load_ctx =
  normalizedBase :: string
  apiKey :: "string option"
  selectedModel :: string

record response =
  status :: nat
  statusText :: string

text \<open>\<^verbatim>\<open>response.ok\<close>, which the Fetch standard defines as a status from 200 to 299.\<close>

definition response_ok :: "response \<Rightarrow> bool" where
  "response_ok r \<longleftrightarrow> 200 \<le> status r \<and> status r \<le> 299"

text \<open>How an awaited promise settles; a rejection carries the error's message.\<close>

datatype 'a settled = Fulfilled 'a | Rejected string

datatype load_status =
    Returned
  | AwaitsGetOpenAIKey load_ctx
  | AwaitsFetch load_ctx
  | AwaitsText load_ctx response
  | AwaitsJson load_ctx

definition scheme_error :: string where
  "scheme_error = ''Enter a full base URL including protocol (e.g. https://server/v1).''"

definition https_error :: string where
  "https_error = ''Only HTTPS endpoints are allowed (except localhost for testing).''"

definition fallback_error :: string where
  "fallback_error = ''Unable to load models from endpoint.''"

definition unauthorized_hint :: string where
  "unauthorized_hint =
     ''Endpoint rejected the request (401/403). Add an API key or adjust server auth settings.''"

text \<open>The guard of every state update after the first suspension.\<close>

definition still_current :: "load_ctx \<Rightarrow> component \<Rightarrow> bool" where
  "still_current ctx s \<longleftrightarrow> isMountedRef s \<and> latestReasoningBaseRef s = normalizedBase ctx"

text \<open>Truthiness of \<^verbatim>\<open>apiKey\<close>.\<close>

definition has_key :: "load_ctx \<Rightarrow> bool" where
  "has_key ctx \<longleftrightarrow> (case apiKey ctx of Some k \<Rightarrow> k \<noteq> [] | None \<Rightarrow> False)"

definition finally_block :: "load_ctx \<Rightarrow> component \<Rightarrow> component" where
  "finally_block ctx s =
     (let s1 = (if pendingBaseRef s = Some (normalizedBase ctx)
                then s\<lparr>pendingBaseRef := None\<rparr> else s)
      in if still_current ctx s1 then s1\<lparr>customModelsLoading := False\<rparr> else s1)"

definition catch_block :: "load_ctx \<Rightarrow> string \<Rightarrow> component \<Rightarrow> component" where
  "catch_block ctx error_message s =
     (if still_current ctx s then
        let message = (if error_message = [] then fallback_error else error_message);
            unauthorized = unauthorized_test message
        in setCustomModelOptions []
             (s\<lparr>customModelsError :=
                  Some (if unauthorized \<and> \<not> has_key ctx then unauthorized_hint else message)\<rparr>)
      else s)"

text \<open>The body of the \<^verbatim>\<open>try\<close> block from the scheme check to the \<^verbatim>\<open>fetch\<close>.\<close>

definition after_key :: "constants \<Rightarrow> load_ctx \<Rightarrow> component \<Rightarrow> component \<times> load_status" where
  "after_key cfg ctx s =
     (if \<not> sublist ''://'' (normalizedBase ctx) then
        (finally_block ctx
           (if still_current ctx s
            then s\<lparr>customModelsError := Some scheme_error, customModelsLoading := False\<rparr>
            else s),
         Returned)
      else
        let isLocalhost = sublist ''://localhost'' (normalizedBase ctx) \<or>
                          sublist ''://127.0.0.1'' (normalizedBase ctx)
        in if \<not> prefix ''https://'' (normalizedBase ctx) \<and> \<not> isLocalhost then
             (finally_block ctx
                (if still_current ctx s
                 then s\<lparr>customModelsError := Some https_error, customModelsLoading := False\<rparr>
                 else s),
              Returned)
           else
             let headers = (if has_key ctx
                            then map_option (\<lambda>k. ''Bearer '' @ k) (apiKey ctx) else None);
                 modelsUrl = buildApiUrl cfg (normalizedBase ctx) ''/models''
             in (s\<lparr>fetchCalls := fetchCalls s @
                       [\<lparr>fetch_url = modelsUrl, fetch_authorization = headers\<rparr>]\<rparr>,
                 AwaitsFetch ctx))"

text \<open>The invocation itself, up to its first suspension.\<close>

definition loadRemoteModels ::
    "constants \<Rightarrow> props \<Rightarrow> string option \<Rightarrow> bool \<Rightarrow> component \<Rightarrow> component \<times> load_status" where
  "loadRemoteModels cfg p baseOverride force s =
     (let rawBase = (case baseOverride of Some b \<Rightarrow> b | None \<Rightarrow> cloudReasoningBaseUrl p);
          base = normalizeBaseUrl cfg rawBase
      in if base = [] then
           (if isMountedRef s
            then setCustomModelOptions []
                   (s\<lparr>customModelsLoading := False, customModelsError := None\<rparr>)
            else s,
            Returned)
         else if \<not> force \<and> lastLoadedBaseRef s = Some base then (s, Returned)
         else if \<not> force \<and> pendingBaseRef s = Some base then (s, Returned)
         else
           let s1 = (if baseOverride \<noteq> None then s\<lparr>latestReasoningBaseRef := base\<rparr> else s);
               s2 = s1\<lparr>pendingBaseRef := Some base\<rparr>;
               s3 = (if isMountedRef s2
                     then setCustomModelOptions []
                            (s2\<lparr>customModelsLoading := True, customModelsError := None\<rparr>)
                     else s2);
               ctx = \<lparr>normalizedBase = base, apiKey = None, selectedModel = reasoningModel p\<rparr>;
               keyFromState = js_trim (openaiApiKey p)
           in if keyFromState \<noteq> [] then after_key cfg (ctx\<lparr>apiKey := Some keyFromState\<rparr>) s3
              else (s3, AwaitsGetOpenAIKey ctx))"

text \<open>\<^verbatim>\<open>await window.electronAPI?.getOpenAIKey?.()\<close> settles.\<close>

definition resume_getOpenAIKey ::
    "constants \<Rightarrow> load_ctx \<Rightarrow> string option settled \<Rightarrow> component \<Rightarrow> component \<times> load_status" where
  "resume_getOpenAIKey cfg ctx r s =
     (case r of
        Fulfilled k \<Rightarrow> after_key cfg (ctx\<lparr>apiKey := k\<rparr>) s
      | Rejected m \<Rightarrow> (finally_block ctx (catch_block ctx m s), Returned))"

text \<open>\<^verbatim>\<open>await fetch(...)\<close> settles.\<close>

definition resume_fetch ::
    "load_ctx \<Rightarrow> response settled \<Rightarrow> component \<Rightarrow> component \<times> load_status" where
  "resume_fetch ctx r s =
     (case r of
        Rejected m \<Rightarrow> (finally_block ctx (catch_block ctx m s), Returned)
      | Fulfilled resp \<Rightarrow>
          if \<not> response_ok resp then (s, AwaitsText ctx resp) else (s, AwaitsJson ctx))"

text \<open>
  \<^verbatim>\<open>await response.text().catch(() => '')\<close> settles with the body, or with the empty
  string when reading it failed; the summary is thrown and caught.
\<close>

definition error_summary :: "response \<Rightarrow> string \<Rightarrow> string" where
  "error_summary resp errorText =
     (if errorText \<noteq> []
      then number_toString (status resp) @ '' '' @ take 200 errorText
      else number_toString (status resp) @ '' '' @ statusText resp)"

definition resume_text ::
    "load_ctx \<Rightarrow> response \<Rightarrow> string \<Rightarrow> component \<Rightarrow> component \<times> load_status" where
  "resume_text ctx resp errorText s =
     (finally_block ctx (catch_block ctx (js_trim (error_summary resp errorText)) s), Returned)"

text \<open>
  \<^verbatim>\<open>await response.json().catch(() => ({}))\<close> settles with the parsed body; \<open>None\<close>
  stands for a body that could not be parsed.
\<close>

definition apply_models :: "load_ctx \<Rightarrow> CloudModelOption list \<Rightarrow> component \<Rightarrow> component" where
  "apply_models ctx models s =
     (if still_current ctx s then
        let s1 = setCustomModelOptions models s;
            s2 = (case models of
                    [] \<Rightarrow> s1
                  | first # _ \<Rightarrow>
                      if \<not> list_ex (\<lambda>model. value model = JString (selectedModel ctx)) models
                      then setReasoningModel (value first) s1
                      else s1)
        in s2\<lparr>customModelsError := None, lastLoadedBaseRef := Some (normalizedBase ctx)\<rparr>
      else s)"

definition resume_json ::
    "load_ctx \<Rightarrow> json option \<Rightarrow> component \<Rightarrow> component \<times> load_status" where
  "resume_json ctx parsed s =
     (let payload = (case parsed of Some j \<Rightarrow> j | None \<Rightarrow> JObject [])
      in (finally_block ctx (apply_models ctx (mappedModels payload) s), Returned))"

section \<open>What a render derives from the state\<close>

definition trimmedCustomBase :: "component \<Rightarrow> string" where
  "trimmedCustomBase s = js_trim (customBaseInput s)"

definition isCustomBaseDirty :: "props \<Rightarrow> component \<Rightarrow> bool" where
  "isCustomBaseDirty p s \<longleftrightarrow> trimmedCustomBase s \<noteq> js_trim (cloudReasoningBaseUrl p)"

text \<open>
  \<^verbatim>\<open>displayedCustomModels\<close> is memoised on \<^verbatim>\<open>[isCustomBaseDirty, customModelOptions]\<close>,
  which is everything its body reads, so it is a function of the current render.
\<close>

definition displayedCustomModels :: "props \<Rightarrow> component \<Rightarrow> CloudModelOption list" where
  "displayedCustomModels p s = (if isCustomBaseDirty p s then [] else customModelOptions s)"

text \<open>
  \<^verbatim>\<open>selectedCloudModels\<close> is the list handed to the model picker. It is memoised on
  \<^verbatim>\<open>[selectedCloudProvider, openaiModelOptions, customModelOptions]\<close>. React compares
  dependencies by identity and keeps the stored value while they are the same;
  \<^verbatim>\<open>openaiModelOptions\<close> is itself memoised without dependencies and never changes.
  The static registry \<^verbatim>\<open>REASONING_PROVIDERS\<close> is a parameter: the models of a provider.
\<close>

record selectedCloudModels_memo =
  memo_selectedCloudProvider :: string
  memo_customModelOptionsRef :: nat
  memo_value :: "CloudModelOption list"

definition with_provider_icon :: "string \<Rightarrow> CloudModelOption list \<Rightarrow> CloudModelOption list" where
  "with_provider_icon provider models =
     map (\<lambda>model. model\<lparr>icon := Some (getProviderIconPath provider)\<rparr>) models"

definition compute_selectedCloudModels ::
    "(string \<Rightarrow> CloudModelOption list option) \<Rightarrow> props \<Rightarrow> component \<Rightarrow> CloudModelOption list" where
  "compute_selectedCloudModels REASONING_PROVIDERS p s =
     (if selectedCloudProvider s = ''openai'' then
        with_provider_icon ''openai''
          (case REASONING_PROVIDERS ''openai'' of Some models \<Rightarrow> models | None \<Rightarrow> [])
      else if selectedCloudProvider s = ''custom'' then displayedCustomModels p s
      else (case REASONING_PROVIDERS (selectedCloudProvider s) of
              None \<Rightarrow> []
            | Some models \<Rightarrow> with_provider_icon (selectedCloudProvider s) models))"

definition selectedCloudModels ::
    "(string \<Rightarrow> CloudModelOption list option) \<Rightarrow> props \<Rightarrow> component \<Rightarrow>
       selectedCloudModels_memo option \<Rightarrow> selectedCloudModels_memo" where
  "selectedCloudModels REASONING_PROVIDERS p s previous =
     (let fresh = \<lparr>memo_selectedCloudProvider = selectedCloudProvider s,
                    memo_customModelOptionsRef = customModelOptionsRef s,
                    memo_value = compute_selectedCloudModels REASONING_PROVIDERS p s\<rparr>
      in case previous of
           None \<Rightarrow> fresh
         | Some m \<Rightarrow>
             if memo_selectedCloudProvider m = selectedCloudProvider s \<and>
                memo_customModelOptionsRef m = customModelOptionsRef s
             then m else fresh)"

text \<open>The \<^verbatim>\<open>onChange\<close> handler of the base URL field.\<close>

definition onChange_customBaseInput :: "string \<Rightarrow> component \<Rightarrow> component" where
  "onChange_customBaseInput text s = s\<lparr>customBaseInput := text\<rparr>"

section \<open>Concrete surroundings for running the model\<close>

text \<open>
  The two helpers are used to run the model on concrete inputs only; every general
  theorem below holds for arbitrary helpers.
\<close>

text \<open>
  Modelled from the spec: \<^verbatim>\<open>normalizeBaseUrl\<close> of \<^verbatim>\<open>../config/constants\<close>, which the
  file under study imports but which is not part of it. The spec describes it as
  trimming the URL and stripping trailing slashes.
\<close>

definition spec_normalizeBaseUrl :: "string \<Rightarrow> string" where
  "spec_normalizeBaseUrl raw = rev (dropWhile (\<lambda>c. c = CHR ''/'') (rev (js_trim raw)))"

text \<open>
  Modelled from the spec: \<^verbatim>\<open>buildApiUrl\<close> of \<^verbatim>\<open>../config/constants\<close>, likewise
  missing. The spec gives the request as a GET to \<^verbatim>\<open><base>/models\<close>.
\<close>

definition spec_buildApiUrl :: "string \<Rightarrow> string \<Rightarrow> string" where
  "spec_buildApiUrl base path = base @ path"

definition spec_constants :: constants where
  "spec_constants =
     \<lparr>normalizeBaseUrl = spec_normalizeBaseUrl, buildApiUrl = spec_buildApiUrl\<rparr>"

text \<open>The state after the first render: the initial values of the hooks.\<close>

definition initial_component :: "constants \<Rightarrow> props \<Rightarrow> component" where
  "initial_component cfg p =
     \<lparr>customModelOptions = [], customModelOptionsRef = 0, customModelsLoading = False,
      customModelsError = None, customBaseInput = cloudReasoningBaseUrl p,
      selectedCloudProvider = ''openai'', lastLoadedBaseRef = None, pendingBaseRef = None,
      isMountedRef = True, latestReasoningBaseRef = normalizedCustomReasoningBase cfg p,
      fetchCalls = [], setReasoningModelCalls = []\<rparr>"

text \<open>
  The host of a URL as RFC 3986 reads it: what follows the first \<^verbatim>\<open>://\<close> up to the
  next \<^verbatim>\<open>/\<close>, \<^verbatim>\<open>?\<close> or \<^verbatim>\<open>#\<close>, without user information and port. The source
  never computes it; it is the yardstick for what its transport check lets through.
\<close>

fun after_scheme :: "string \<Rightarrow> string" where
  "after_scheme [] = []"
| "after_scheme (c # cs) = (if prefix ''://'' (c # cs) then drop 3 (c # cs) else after_scheme cs)"

definition url_host :: "string \<Rightarrow> string" where
  "url_host u =
     (let authority = takeWhile (\<lambda>c. c \<notin> set ''/?#'') (after_scheme u);
          hostport = rev (takeWhile (\<lambda>c. c \<noteq> CHR ''@'') (rev authority))
      in takeWhile (\<lambda>c. c \<noteq> CHR '':'') hostport)"

definition loopback_host :: "string \<Rightarrow> bool" where
  "loopback_host h \<longleftrightarrow> toLowerCase h = ''localhost'' \<or> h = ''127.0.0.1''"

section \<open>Notions for stating the properties\<close>

text \<open>
  What the loader shows and what it asks of the host: the options with their identity,
  the loading flag, the error, the cache key and the requested model selections.
\<close>

definition loader_view ::
    "component \<Rightarrow>
       CloudModelOption list \<times> nat \<times> bool \<times> string option \<times> string option \<times> json list" where
  "loader_view s =
     (customModelOptions s, customModelOptionsRef s, customModelsLoading s, customModelsError s,
      lastLoadedBaseRef s, setReasoningModelCalls s)"

text \<open>Any of the four ways a suspended invocation can be resumed.\<close>

datatype completion =
    KeySettled "string option settled"
  | FetchSettled "response settled"
  | TextSettled response string
  | JsonSettled "json option"

fun complete ::
    "constants \<Rightarrow> load_ctx \<Rightarrow> completion \<Rightarrow> component \<Rightarrow> component \<times> load_status" where
  "complete cfg ctx (KeySettled r) s = resume_getOpenAIKey cfg ctx r s"
| "complete cfg ctx (FetchSettled r) s = resume_fetch ctx r s"
| "complete cfg ctx (TextSettled resp errorText) s = resume_text ctx resp errorText s"
| "complete cfg ctx (JsonSettled parsed) s = resume_json ctx parsed s"

text \<open>Resumptions of any invocations, delivered one after the other.\<close>

definition run_completions ::
    "constants \<Rightarrow> (load_ctx \<times> completion) list \<Rightarrow> component \<Rightarrow> component" where
  "run_completions cfg rs s = fold (\<lambda>(ctx, c) s'. fst (complete cfg ctx c s')) rs s"

subsection \<open>A race between two bases\<close>

definition race_props :: props where
  "race_props =
     \<lparr>cloudReasoningBaseUrl = ''https://one.example'', openaiApiKey = ''sk-1'',
      reasoningModel = ''old-model''\<rparr>"

definition race_first :: "component \<times> load_status" where
  "race_first =
     loadRemoteModels spec_constants race_props (Some ''https://one.example/'') True
       (initial_component spec_constants race_props)"

definition race_second :: "component \<times> load_status" where
  "race_second =
     loadRemoteModels spec_constants race_props (Some ''https://two.example'') True
       (fst race_first)"

definition race_ctx :: load_ctx where
  "race_ctx =
     \<lparr>normalizedBase = ''https://one.example'', apiKey = Some ''sk-1'',
      selectedModel = ''old-model''\<rparr>"

definition race_payload :: json where
  "race_payload = JObject [(''data'', JArray [JObject [(''id'', JString ''m1'')]])]"

text \<open>The second request receives its response and its body.\<close>

definition race_others :: "(load_ctx \<times> completion) list" where
  "race_others =
     [(race_ctx\<lparr>normalizedBase := ''https://two.example''\<rparr>,
       FetchSettled (Fulfilled \<lparr>status = 200, statusText = ''OK''\<rparr>)),
      (race_ctx\<lparr>normalizedBase := ''https://two.example''\<rparr>,
       JsonSettled (Some (JObject [(''models'', JArray [JObject [(''name'', JString ''m2'')]])])))]"

subsection \<open>De-duplication\<close>

text \<open>The normalized base an invocation works on: the first two lines of the loader.\<close>

definition requested_base :: "constants \<Rightarrow> props \<Rightarrow> string option \<Rightarrow> string" where
  "requested_base cfg p baseOverride =
     normalizeBaseUrl cfg (case baseOverride of Some b \<Rightarrow> b | None \<Rightarrow> cloudReasoningBaseUrl p)"

text \<open>
  Renders of the component with the base A, then B, then A again while the custom tab is
  selected: each runs the effect on the normalized base and then calls the loader
  without override and without force.
\<close>

definition dedup_props :: "string \<Rightarrow> props" where
  "dedup_props base =
     \<lparr>cloudReasoningBaseUrl = base, openaiApiKey = ''sk-1'', reasoningModel = ''''\<rparr>"

definition dedup_call :: "string \<Rightarrow> component \<Rightarrow> component \<times> load_status" where
  "dedup_call base s =
     loadRemoteModels spec_constants (dedup_props base) None False
       (effect_latestReasoningBase spec_constants (dedup_props base) s)"

definition dedup_start :: component where
  "dedup_start = initial_component spec_constants (dedup_props ''https://a.example'')"

definition dedup_ctx :: "string \<Rightarrow> load_ctx" where
  "dedup_ctx base = \<lparr>normalizedBase = base, apiKey = Some ''sk-1'', selectedModel = ''''\<rparr>"

text \<open>
  What happens to the loader between two calls: it is called, or one of its suspended
  invocations is resumed.
\<close>

datatype loader_event =
    Call props "string option" bool
  | Resume load_ctx completion

fun occur :: "constants \<Rightarrow> loader_event \<Rightarrow> component \<Rightarrow> component \<times> load_status" where
  "occur cfg (Call p baseOverride force) s = loadRemoteModels cfg p baseOverride force s"
| "occur cfg (Resume ctx c) s = complete cfg ctx c s"

text \<open>The state after a sequence of such events.\<close>

definition run_events :: "constants \<Rightarrow> loader_event list \<Rightarrow> component \<Rightarrow> component" where
  "run_events cfg es s = fold (\<lambda>e s'. fst (occur cfg e s')) es s"

text \<open>
  An event leaves the marker of the base \<open>b\<close> alone when it is a call for \<open>b\<close> that is not
  forced or that suspends, or a resumption that belongs to another base or suspends
  again: every call is for \<open>b\<close>, and no invocation for \<open>b\<close> ends.
\<close>

fun leaves_marker :: "constants \<Rightarrow> string \<Rightarrow> loader_event \<Rightarrow> component \<Rightarrow> bool" where
  "leaves_marker cfg b (Call p baseOverride force) s \<longleftrightarrow>
     requested_base cfg p baseOverride = b \<and>
     (\<not> force \<or> snd (loadRemoteModels cfg p baseOverride force s) \<noteq> Returned)"
| "leaves_marker cfg b (Resume ctx c) s \<longleftrightarrow>
     normalizedBase ctx \<noteq> b \<or> snd (complete cfg ctx c s) \<noteq> Returned"

fun marker_undisturbed ::
    "constants \<Rightarrow> string \<Rightarrow> loader_event list \<Rightarrow> component \<Rightarrow> bool" where
  "marker_undisturbed cfg b [] s \<longleftrightarrow> True"
| "marker_undisturbed cfg b (e # es) s \<longleftrightarrow>
     leaves_marker cfg b e s \<and> marker_undisturbed cfg b es (fst (occur cfg e s))"

text \<open>
  While the request for A is in flight: its response arrives, and the list is refreshed by
  a forced call for A.
\<close>

definition refresh_events :: "loader_event list" where
  "refresh_events =
     [Resume (dedup_ctx ''https://a.example'')
        (FetchSettled (Fulfilled \<lparr>status = 200, statusText = ''OK''\<rparr>)),
      Call (dedup_props ''https://a.example'') None True]"

text \<open>
  While the request for A is in flight: the list is refreshed by a forced call for A, and
  then the first request fails.
\<close>

definition older_ends :: "loader_event list" where
  "older_ends =
     [Call (dedup_props ''https://a.example'') None True,
      Resume (dedup_ctx ''https://a.example'') (FetchSettled (Rejected ''Failed to fetch''))]"

subsection \<open>Bases for the transport-security check\<close>

definition bypass_props :: props where
  "bypass_props =
     \<lparr>cloudReasoningBaseUrl = ''http://localhost.evil.example'', openaiApiKey = ''sk-live-1'',
      reasoningModel = ''''\<rparr>"

definition path_url :: string where
  "path_url = ''http://evil.example/v1?next=://127.0.0.1''"

definition remote_props :: props where
  "remote_props =
     \<lparr>cloudReasoningBaseUrl = ''http://remote.example.com'', openaiApiKey = ''sk-live-1'',
      reasoningModel = ''''\<rparr>"

subsection \<open>Bases without content or without scheme\<close>

definition blank_props :: props where
  "blank_props = \<lparr>cloudReasoningBaseUrl = ''  '', openaiApiKey = '''', reasoningModel = ''''\<rparr>"

definition schemeless_props :: props where
  "schemeless_props =
     \<lparr>cloudReasoningBaseUrl = ''api.example.com/v1'', openaiApiKey = '''', reasoningModel = ''''\<rparr>"

definition schemeless_ctx :: load_ctx where
  "schemeless_ctx =
     \<lparr>normalizedBase = ''api.example.com/v1'', apiKey = None, selectedModel = ''''\<rparr>"

subsection \<open>A request in flight without a key\<close>

definition http_props :: props where
  "http_props =
     \<lparr>cloudReasoningBaseUrl = ''https://api.example.com/v1'', openaiApiKey = '''',
      reasoningModel = ''''\<rparr>"

definition http_ctx :: load_ctx where
  "http_ctx =
     \<lparr>normalizedBase = ''https://api.example.com/v1'', apiKey = None, selectedModel = ''''\<rparr>"

text \<open>The component while the request of \<open>http_ctx\<close> is in flight.\<close>

definition http_waiting :: component where
  "http_waiting =
     fst (resume_getOpenAIKey spec_constants http_ctx (Fulfilled None)
       (fst (loadRemoteModels spec_constants http_props None False
         (initial_component spec_constants http_props))))"

definition response_500 :: response where
  "response_500 = \<lparr>status = 500, statusText = ''Internal Server Error''\<rparr>"

definition response_401 :: response where
  "response_401 = \<lparr>status = 401, statusText = ''Unauthorized''\<rparr>"

subsection \<open>Payloads\<close>

text \<open>A raw entry that has neither an \<^verbatim>\<open>id\<close> nor a \<^verbatim>\<open>name\<close>.\<close>

definition lacks_id_and_name :: "json \<Rightarrow> bool" where
  "lacks_id_and_name item \<longleftrightarrow> js_get item ''id'' = None \<and> js_get item ''name'' = None"

definition sample_payload :: json where
  "sample_payload =
     JObject [(''object'', JString ''list''),
       (''data'', JArray
          [JObject [(''id'', JString ''m1''), (''owned_by'', JString ''OpenAI'')],
           JObject [(''object'', JString ''model'')],
           JNull,
           JObject [(''name'', JString ''mixtral''), (''owned_by'', JString ''Mistral via Google'')],
           JObject [(''id'', JString ''local''), (''owned_by'', JNumber 7)]])]"

definition scenario_payload :: json where
  "scenario_payload =
     JObject [(''data'', JArray [JObject [(''id'', JString ''m1''), (''owned_by'', JString ''OpenAI'')]])]"

definition scenario_option :: CloudModelOption where
  "scenario_option =
     \<lparr>value = JString ''m1'', label = JString ''m1'',
      description = Some (JString ''Owner: OpenAI''),
      icon = Some ''/assets/icons/providers/openai.svg'', ownedBy = Some ''OpenAI''\<rparr>"

subsection \<open>Switching the provider tab\<close>

text \<open>
  The click on a provider tab. \<^verbatim>\<open>setLocalReasoningProvider\<close> goes to the host and leaves
  no trace in the component.
\<close>

definition handleCloudProviderChange ::
    "constants \<Rightarrow> (string \<Rightarrow> CloudModelOption list option) \<Rightarrow> props \<Rightarrow> string \<Rightarrow>
       component \<Rightarrow> component \<times> load_status" where
  "handleCloudProviderChange cfg REASONING_PROVIDERS p provider s =
     (let s1 = s\<lparr>selectedCloudProvider := provider\<rparr>
      in if provider = ''custom'' then
           let s2 = s1\<lparr>customBaseInput := cloudReasoningBaseUrl p, lastLoadedBaseRef := None,
                      pendingBaseRef := None\<rparr>
           in (case customModelOptions s of
                 first # _ \<Rightarrow> (setReasoningModel (value first) s2, Returned)
               | [] \<Rightarrow>
                   if normalizedCustomReasoningBase cfg p \<noteq> []
                   then loadRemoteModels cfg p None False s2
                   else (s2, Returned))
         else (case REASONING_PROVIDERS provider of
                 Some (first # _) \<Rightarrow> (setReasoningModel (value first) s1, Returned)
               | _ \<Rightarrow> (s1, Returned)))"

subsection \<open>Editing the base field after a load\<close>

text \<open>
  A session: the component mounts with a saved base, the user opens the custom tab, the
  model list arrives, and the user then types another base into the field without
  applying it. After each step the component renders; each render of
  \<^verbatim>\<open>selectedCloudModels\<close> starts from the value the previous one stored.
\<close>

definition sample_registry :: "string \<Rightarrow> CloudModelOption list option" where
  "sample_registry =
     map_of [(''openai'',
        [\<lparr>value = JString ''gpt-4o-mini'', label = JString ''GPT-4o mini'', description = None,
          icon = None, ownedBy = None\<rparr>])]"

definition edit_mounted :: component where
  "edit_mounted = initial_component spec_constants http_props"

definition edit_tab_clicked :: component where
  "edit_tab_clicked =
     fst (handleCloudProviderChange spec_constants sample_registry http_props ''custom''
       edit_mounted)"

definition edit_loaded :: component where
  "edit_loaded =
     fst (resume_json http_ctx (Some scenario_payload)
       (fst (resume_fetch http_ctx (Fulfilled \<lparr>status = 200, statusText = ''OK''\<rparr>)
         (fst (resume_getOpenAIKey spec_constants http_ctx (Fulfilled None) edit_tab_clicked)))))"

definition edit_typed :: component where
  "edit_typed = onChange_customBaseInput ''https://other.example/v1'' edit_loaded"

definition render_mounted :: selectedCloudModels_memo where
  "render_mounted = selectedCloudModels sample_registry http_props edit_mounted None"

definition render_tab_clicked :: selectedCloudModels_memo where
  "render_tab_clicked =
     selectedCloudModels sample_registry http_props edit_tab_clicked (Some render_mounted)"

definition render_loaded :: selectedCloudModels_memo where
  "render_loaded =
     selectedCloudModels sample_registry http_props edit_loaded (Some render_tab_clicked)"

definition render_typed :: selectedCloudModels_memo where
  "render_typed =
     selectedCloudModels sample_registry http_props edit_typed (Some render_loaded)"

subsection \<open>Clicking the custom tab twice\<close>

text \<open>A click on the custom tab while that base is saved and a key is held.\<close>

definition dedup_click :: "component \<Rightarrow> component \<times> load_status" where
  "dedup_click s =
     handleCloudProviderChange spec_constants sample_registry (dedup_props ''https://a.example'')
       ''custom'' s"

section \<open>Properties\<close>

lemmas eval_defs =
  loadRemoteModels_def after_key_def finally_block_def catch_block_def still_current_def
  has_key_def resume_getOpenAIKey_def resume_fetch_def resume_text_def resume_json_def
  apply_models_def setCustomModelOptions_def setReasoningModel_def initial_component_def
  normalizedCustomReasoningBase_def spec_constants_def spec_normalizeBaseUrl_def
  spec_buildApiUrl_def js_trim_def js_whitespace_def sublist_code error_summary_def
  response_ok_def effect_latestReasoningBase_def

lemmas payload_defs =
  mappedModels_def rawModels_def mapModel_def js_or_def List.map_filter_simps
  resolveOwnedByIcon_def

subsection \<open>What a stale or unmounted invocation leaves alone\<close>

lemma finally_block_stale:
  "\<not> still_current ctx s \<Longrightarrow> loader_view (finally_block ctx s) = loader_view s"
  by (auto simp add: finally_block_def still_current_def loader_view_def Let_def)

lemma catch_block_stale: "\<not> still_current ctx s \<Longrightarrow> catch_block ctx m s = s"
  by (simp add: catch_block_def)

lemma apply_models_stale: "\<not> still_current ctx s \<Longrightarrow> apply_models ctx ms s = s"
  by (simp add: apply_models_def)

lemma still_current_apiKey [simp]:
  "still_current (ctx\<lparr>apiKey := k\<rparr>) s = still_current ctx s"
  by (simp add: still_current_def)

lemma finally_block_apiKey [simp]:
  "finally_block (ctx\<lparr>apiKey := k\<rparr>) s = finally_block ctx s"
  by (simp add: finally_block_def still_current_def)

lemma still_current_fetchCalls [simp]:
  "still_current ctx (s\<lparr>fetchCalls := f\<rparr>) = still_current ctx s"
  by (simp add: still_current_def)

lemma after_key_stale:
  "\<not> still_current ctx s \<Longrightarrow> loader_view (fst (after_key cfg ctx s)) = loader_view s"
  by (simp add: after_key_def Let_def finally_block_stale) (simp add: loader_view_def)

lemma complete_stale:
  assumes "\<not> still_current ctx s"
  shows "loader_view (fst (complete cfg ctx c s)) = loader_view s"
proof (cases c)
  case (KeySettled r)
  with assms show ?thesis
    by (cases r)
      (simp_all add: resume_getOpenAIKey_def after_key_stale catch_block_stale
        finally_block_stale)
next
  case (FetchSettled r)
  with assms show ?thesis
    by (cases r) (simp_all add: resume_fetch_def catch_block_stale finally_block_stale)
next
  case (TextSettled resp body)
  with assms show ?thesis
    by (simp add: resume_text_def catch_block_stale finally_block_stale)
next
  case (JsonSettled parsed)
  with assms show ?thesis
    by (simp add: resume_json_def apply_models_stale finally_block_stale)
qed

subsection \<open>Who writes the latest requested base\<close>

lemma finally_block_latest [simp]:
  "latestReasoningBaseRef (finally_block ctx s) = latestReasoningBaseRef s"
  "isMountedRef (finally_block ctx s) = isMountedRef s"
  by (simp_all add: finally_block_def Let_def)

lemma after_key_latest [simp]:
  "latestReasoningBaseRef (fst (after_key cfg ctx s)) = latestReasoningBaseRef s"
  "isMountedRef (fst (after_key cfg ctx s)) = isMountedRef s"
  by (simp_all add: after_key_def Let_def)

lemma setCustomModelOptions_latest [simp]:
  "latestReasoningBaseRef (setCustomModelOptions ms s) = latestReasoningBaseRef s"
  "isMountedRef (setCustomModelOptions ms s) = isMountedRef s"
  by (simp_all add: setCustomModelOptions_def)

lemma loadRemoteModels_latest_override:
  assumes "normalizeBaseUrl cfg b \<noteq> []"
    and "force \<or> (lastLoadedBaseRef s \<noteq> Some (normalizeBaseUrl cfg b) \<and>
                   pendingBaseRef s \<noteq> Some (normalizeBaseUrl cfg b))"
  shows "latestReasoningBaseRef (fst (loadRemoteModels cfg p (Some b) force s)) =
           normalizeBaseUrl cfg b"
  using assms by (auto simp add: loadRemoteModels_def Let_def)

lemma loadRemoteModels_latest_no_override:
  "latestReasoningBaseRef (fst (loadRemoteModels cfg p None force s)) = latestReasoningBaseRef s"
  by (simp add: loadRemoteModels_def Let_def)

lemma catch_block_latest [simp]:
  "latestReasoningBaseRef (catch_block ctx m s) = latestReasoningBaseRef s"
  "isMountedRef (catch_block ctx m s) = isMountedRef s"
  by (simp_all add: catch_block_def Let_def)

lemma apply_models_latest [simp]:
  "latestReasoningBaseRef (apply_models ctx ms s) = latestReasoningBaseRef s"
  "isMountedRef (apply_models ctx ms s) = isMountedRef s"
  by (simp_all add: apply_models_def setReasoningModel_def Let_def split: list.split)

lemma complete_latest:
  "latestReasoningBaseRef (fst (complete cfg ctx c s)) = latestReasoningBaseRef s"
  "isMountedRef (fst (complete cfg ctx c s)) = isMountedRef s"
proof -
  show "latestReasoningBaseRef (fst (complete cfg ctx c s)) = latestReasoningBaseRef s"
  proof (cases c)
    case (KeySettled r)
    then show ?thesis by (cases r) (simp_all add: resume_getOpenAIKey_def)
  next
    case (FetchSettled r)
    then show ?thesis by (cases r) (simp_all add: resume_fetch_def)
  next
    case (TextSettled resp body)
    then show ?thesis by (simp add: resume_text_def)
  next
    case (JsonSettled parsed)
    then show ?thesis by (simp add: resume_json_def)
  qed
  show "isMountedRef (fst (complete cfg ctx c s)) = isMountedRef s"
  proof (cases c)
    case (KeySettled r)
    then show ?thesis by (cases r) (simp_all add: resume_getOpenAIKey_def)
  next
    case (FetchSettled r)
    then show ?thesis by (cases r) (simp_all add: resume_fetch_def)
  next
    case (TextSettled resp body)
    then show ?thesis by (simp add: resume_text_def)
  next
    case (JsonSettled parsed)
    then show ?thesis by (simp add: resume_json_def)
  qed
qed

lemma run_completions_latest:
  "latestReasoningBaseRef (run_completions cfg rs s) = latestReasoningBaseRef s"
  unfolding run_completions_def
  by (induction rs arbitrary: s) (simp_all add: complete_latest split: prod.split)

lemma stale_after_completions:
  assumes "latestReasoningBaseRef s \<noteq> normalizedBase ctx"
  shows "loader_view (fst (complete cfg ctx c (run_completions cfg rs s))) =
           loader_view (run_completions cfg rs s)"
proof (rule complete_stale)
  from assms show "\<not> still_current ctx (run_completions cfg rs s)"
    by (simp add: still_current_def run_completions_latest)
qed

text \<open>
  C1 (last request wins). A resumption of an invocation changes what the loader shows
  (options, loading flag, error, cache key, requested model selection) only if the
  component is mounted and the invocation's normalized base is the latest requested
  base at that moment. A newer request records its base as the latest one: a call with
  an override does so itself when it is not skipped, and a call without override reads
  the property whose change the effect on \<^verbatim>\<open>normalizedCustomReasoningBase\<close> has recorded.
  So once a request for another base has been issued, no resumption of the older
  invocation changes what is shown, whatever its response and whatever resumptions of
  other invocations have been delivered in between.
\<close>

theorem last_request_wins:
  "(loader_view (fst (complete cfg ctx c s)) \<noteq> loader_view s \<longrightarrow>
      isMountedRef s \<and> latestReasoningBaseRef s = normalizedBase ctx)
   \<and> (normalizeBaseUrl cfg b2 \<noteq> [] \<and>
       (force \<or> (lastLoadedBaseRef s \<noteq> Some (normalizeBaseUrl cfg b2) \<and>
                  pendingBaseRef s \<noteq> Some (normalizeBaseUrl cfg b2))) \<and>
       normalizedBase ctx \<noteq> normalizeBaseUrl cfg b2 \<longrightarrow>
      latestReasoningBaseRef (fst (loadRemoteModels cfg p (Some b2) force s)) =
        normalizeBaseUrl cfg b2 \<and>
      loader_view (fst (complete cfg ctx c
          (run_completions cfg rs (fst (loadRemoteModels cfg p (Some b2) force s))))) =
        loader_view (run_completions cfg rs (fst (loadRemoteModels cfg p (Some b2) force s))))
   \<and> (normalizedBase ctx \<noteq> normalizedCustomReasoningBase cfg p \<longrightarrow>
      loader_view (fst (complete cfg ctx c
          (run_completions cfg rs
            (fst (loadRemoteModels cfg p None force (effect_latestReasoningBase cfg p s)))))) =
        loader_view (run_completions cfg rs
          (fst (loadRemoteModels cfg p None force (effect_latestReasoningBase cfg p s)))))"
proof (intro conjI impI)
  assume "loader_view (fst (complete cfg ctx c s)) \<noteq> loader_view s"
  then have "still_current ctx s"
    using complete_stale by blast
  then show "isMountedRef s" and "latestReasoningBaseRef s = normalizedBase ctx"
    by (simp_all add: still_current_def)
next
  assume h: "normalizeBaseUrl cfg b2 \<noteq> [] \<and>
       (force \<or> (lastLoadedBaseRef s \<noteq> Some (normalizeBaseUrl cfg b2) \<and>
                  pendingBaseRef s \<noteq> Some (normalizeBaseUrl cfg b2))) \<and>
       normalizedBase ctx \<noteq> normalizeBaseUrl cfg b2"
  then show latest:
    "latestReasoningBaseRef (fst (loadRemoteModels cfg p (Some b2) force s)) =
       normalizeBaseUrl cfg b2"
    by (simp add: loadRemoteModels_latest_override)
  with h have "latestReasoningBaseRef (fst (loadRemoteModels cfg p (Some b2) force s)) \<noteq>
      normalizedBase ctx"
    by auto
  then show "loader_view (fst (complete cfg ctx c
          (run_completions cfg rs (fst (loadRemoteModels cfg p (Some b2) force s))))) =
        loader_view (run_completions cfg rs (fst (loadRemoteModels cfg p (Some b2) force s)))"
    by (rule stale_after_completions)
next
  assume "normalizedBase ctx \<noteq> normalizedCustomReasoningBase cfg p"
  then have "latestReasoningBaseRef
      (fst (loadRemoteModels cfg p None force (effect_latestReasoningBase cfg p s))) \<noteq>
      normalizedBase ctx"
    by (simp add: loadRemoteModels_latest_no_override effect_latestReasoningBase_def)
  then show "loader_view (fst (complete cfg ctx c
          (run_completions cfg rs
            (fst (loadRemoteModels cfg p None force (effect_latestReasoningBase cfg p s)))))) =
        loader_view (run_completions cfg rs
          (fst (loadRemoteModels cfg p None force (effect_latestReasoningBase cfg p s))))"
    by (rule stale_after_completions)
qed

lemma race_first_eq:
  "race_first =
     (\<lparr>customModelOptions = [], customModelOptionsRef = 1, customModelsLoading = True,
       customModelsError = None, customBaseInput = ''https://one.example'',
       selectedCloudProvider = ''openai'', lastLoadedBaseRef = None,
       pendingBaseRef = Some ''https://one.example'', isMountedRef = True,
       latestReasoningBaseRef = ''https://one.example'',
       fetchCalls = [\<lparr>fetch_url = ''https://one.example/models'',
                      fetch_authorization = Some ''Bearer sk-1''\<rparr>],
       setReasoningModelCalls = []\<rparr>,
      AwaitsFetch race_ctx)"
  by (simp add: race_first_def race_ctx_def race_props_def eval_defs Let_def)

lemma race_second_eq:
  "fst race_second =
     \<lparr>customModelOptions = [], customModelOptionsRef = 2, customModelsLoading = True,
      customModelsError = None, customBaseInput = ''https://one.example'',
      selectedCloudProvider = ''openai'', lastLoadedBaseRef = None,
      pendingBaseRef = Some ''https://two.example'', isMountedRef = True,
      latestReasoningBaseRef = ''https://two.example'',
      fetchCalls = [\<lparr>fetch_url = ''https://one.example/models'',
                     fetch_authorization = Some ''Bearer sk-1''\<rparr>,
                    \<lparr>fetch_url = ''https://two.example/models'',
                     fetch_authorization = Some ''Bearer sk-1''\<rparr>],
      setReasoningModelCalls = []\<rparr>"
  by (simp add: race_second_def race_first_eq race_props_def eval_defs Let_def)

lemma race_mappedModels:
  "mappedModels race_payload =
     [\<lparr>value = JString ''m1'', label = JString ''m1'', description = None, icon = None,
       ownedBy = None\<rparr>]"
  by code_simp

text \<open>
  The race run on concrete data: the response for the first base is applied while that
  base is the latest one, and is dropped once the second base has been requested, also
  after the second request has received its own response.
\<close>

theorem last_request_wins_witness:
  "snd race_first = AwaitsFetch race_ctx
   \<and> normalizedBase race_ctx \<noteq> normalizeBaseUrl spec_constants ''https://two.example''
   \<and> customModelOptions (fst (complete spec_constants race_ctx (JsonSettled (Some race_payload))
        (fst race_first))) \<noteq> []
   \<and> latestReasoningBaseRef (fst race_second) = ''https://two.example''
   \<and> loader_view (fst (complete spec_constants race_ctx (JsonSettled (Some race_payload))
        (run_completions spec_constants [] (fst race_second)))) =
       loader_view (run_completions spec_constants [] (fst race_second))
   \<and> customModelOptions (fst (complete spec_constants race_ctx (JsonSettled (Some race_payload))
        (fst race_second))) = []
   \<and> loader_view (fst (complete spec_constants race_ctx (JsonSettled (Some race_payload))
        (run_completions spec_constants race_others (fst race_second)))) =
       loader_view (run_completions spec_constants race_others (fst race_second))"
proof -
  have hyps: "normalizeBaseUrl spec_constants ''https://two.example'' \<noteq> []"
    "normalizedBase race_ctx \<noteq> normalizeBaseUrl spec_constants ''https://two.example''"
    by (simp_all add: race_ctx_def spec_constants_def spec_normalizeBaseUrl_def js_trim_def
        js_whitespace_def)
  have second: "loadRemoteModels spec_constants race_props (Some ''https://two.example'') True
      (fst race_first) = race_second"
    by (simp add: race_second_def)
  have applied: "customModelOptions (fst (complete spec_constants race_ctx
      (JsonSettled (Some race_payload)) (fst race_first))) \<noteq> []"
    by (simp add: race_first_eq race_ctx_def resume_json_def apply_models_def
        finally_block_def still_current_def setCustomModelOptions_def setReasoningModel_def
        race_mappedModels Let_def)
  from hyps second
    last_request_wins [where cfg = spec_constants and ctx = race_ctx
      and c = "JsonSettled (Some race_payload)" and s = "fst race_first"
      and ?b2.0 = "''https://two.example''" and force = True and p = race_props
      and rs = "[]"]
    last_request_wins [where cfg = spec_constants and ctx = race_ctx
      and c = "JsonSettled (Some race_payload)" and s = "fst race_first"
      and ?b2.0 = "''https://two.example''" and force = True and p = race_props
      and rs = race_others]
  have dropped:
    "loader_view (fst (complete spec_constants race_ctx (JsonSettled (Some race_payload))
        (run_completions spec_constants [] (fst race_second)))) =
       loader_view (run_completions spec_constants [] (fst race_second))"
    "loader_view (fst (complete spec_constants race_ctx (JsonSettled (Some race_payload))
        (run_completions spec_constants race_others (fst race_second)))) =
       loader_view (run_completions spec_constants race_others (fst race_second))"
    by simp_all
  from dropped(1) have "customModelOptions (fst (complete spec_constants race_ctx
      (JsonSettled (Some race_payload)) (fst race_second))) = customModelOptions (fst race_second)"
    by (simp add: run_completions_def loader_view_def)
  then have empty: "customModelOptions (fst (complete spec_constants race_ctx
      (JsonSettled (Some race_payload)) (fst race_second))) = []"
    by (simp add: race_second_eq)
  from hyps applied dropped empty show ?thesis
    by (simp add: race_first_eq race_second_eq)
qed

subsection \<open>The pending marker\<close>

lemma finally_block_pending:
  "pendingBaseRef (finally_block ctx s) =
     (if pendingBaseRef s = Some (normalizedBase ctx) then None else pendingBaseRef s)"
  by (simp add: finally_block_def Let_def still_current_def)

lemma catch_block_pending [simp]: "pendingBaseRef (catch_block ctx m s) = pendingBaseRef s"
  by (simp add: catch_block_def setCustomModelOptions_def Let_def)

lemma apply_models_pending [simp]: "pendingBaseRef (apply_models ctx ms s) = pendingBaseRef s"
  by (simp add: apply_models_def setCustomModelOptions_def setReasoningModel_def Let_def
      split: list.split)

lemma after_key_pending:
  "pendingBaseRef (fst (after_key cfg ctx s)) =
     (if snd (after_key cfg ctx s) = Returned \<and> pendingBaseRef s = Some (normalizedBase ctx)
      then None else pendingBaseRef s)"
  by (simp add: after_key_def Let_def finally_block_pending)

lemma after_key_status:
  "snd (after_key cfg ctx s) = Returned \<or> snd (after_key cfg ctx s) = AwaitsFetch ctx"
  by (simp add: after_key_def Let_def)

lemma complete_pending:
  "pendingBaseRef (fst (complete cfg ctx c s)) =
     (if snd (complete cfg ctx c s) = Returned \<and> pendingBaseRef s = Some (normalizedBase ctx)
      then None else pendingBaseRef s)"
proof (cases c)
  case (KeySettled r)
  then show ?thesis
    by (cases r) (simp_all add: resume_getOpenAIKey_def after_key_pending finally_block_pending)
next
  case (FetchSettled r)
  then show ?thesis
    by (cases r) (simp_all add: resume_fetch_def finally_block_pending)
next
  case (TextSettled resp body)
  then show ?thesis by (simp add: resume_text_def finally_block_pending)
next
  case (JsonSettled parsed)
  then show ?thesis by (simp add: resume_json_def finally_block_pending)
qed

lemma loadRemoteModels_skip:
  assumes "requested_base cfg p ov \<noteq> []"
    and "lastLoadedBaseRef s = Some (requested_base cfg p ov) \<or>
         pendingBaseRef s = Some (requested_base cfg p ov)"
  shows "loadRemoteModels cfg p ov False s = (s, Returned)"
  using assms by (auto simp add: loadRemoteModels_def requested_base_def Let_def)

lemma loadRemoteModels_pending:
  "pendingBaseRef (fst (loadRemoteModels cfg p ov force s)) =
     (if snd (loadRemoteModels cfg p ov force s) = Returned
      then (if requested_base cfg p ov = [] \<or>
               (\<not> force \<and> (lastLoadedBaseRef s = Some (requested_base cfg p ov) \<or>
                            pendingBaseRef s = Some (requested_base cfg p ov)))
            then pendingBaseRef s else None)
      else Some (requested_base cfg p ov))"
  by (auto simp add: loadRemoteModels_def requested_base_def Let_def after_key_pending
      setCustomModelOptions_def)

lemma loadRemoteModels_suspended_nonempty:
  "snd (loadRemoteModels cfg p ov force s) \<noteq> Returned \<Longrightarrow> requested_base cfg p ov \<noteq> []"
  by (auto simp add: loadRemoteModels_def requested_base_def Let_def)

lemma occur_leaves_marker:
  assumes "pendingBaseRef s = Some b" and "leaves_marker cfg b e s"
  shows "pendingBaseRef (fst (occur cfg e s)) = Some b"
proof (cases e)
  case (Call p ov force)
  with assms show ?thesis
    by (auto simp add: loadRemoteModels_pending)
next
  case (Resume ctx c)
  with assms show ?thesis
    by (auto simp add: complete_pending)
qed

lemma marker_kept:
  "pendingBaseRef s = Some b \<Longrightarrow> marker_undisturbed cfg b es s \<Longrightarrow>
     pendingBaseRef (run_events cfg es s) = Some b"
proof (induction es arbitrary: s)
  case Nil
  then show ?case by (simp add: run_events_def)
next
  case (Cons e es)
  from Cons.prems have "pendingBaseRef (fst (occur cfg e s)) = Some b"
    by (simp add: occur_leaves_marker)
  moreover from Cons.prems have "marker_undisturbed cfg b es (fst (occur cfg e s))"
    by simp
  ultimately have "pendingBaseRef (run_events cfg es (fst (occur cfg e s))) = Some b"
    by (rule Cons.IH)
  then show ?case by (simp add: run_events_def)
qed

lemma dedup_first_eq:
  "dedup_call ''https://a.example'' dedup_start =
     (\<lparr>customModelOptions = [], customModelOptionsRef = 1, customModelsLoading = True,
       customModelsError = None, customBaseInput = ''https://a.example'',
       selectedCloudProvider = ''openai'', lastLoadedBaseRef = None,
       pendingBaseRef = Some ''https://a.example'', isMountedRef = True,
       latestReasoningBaseRef = ''https://a.example'',
       fetchCalls = [\<lparr>fetch_url = ''https://a.example/models'',
                      fetch_authorization = Some ''Bearer sk-1''\<rparr>],
       setReasoningModelCalls = []\<rparr>,
      AwaitsFetch (dedup_ctx ''https://a.example''))"
  by code_simp

text \<open>
  C2 (de-duplication), as the code has it. A call without force returns at once, leaving
  the state (and so the list of requests) as it was, when its normalized base is the last
  successfully loaded base or the base held by the pending marker. The marker is a single
  slot: a call that gets past the guards stores its base there; a resumption that
  suspends again leaves it as it is; the cleanup step of every ending (success, error,
  early return) clears it exactly when it holds the base of the invocation that ends,
  whichever invocation has stored it. Hence a call without force for the base the marker
  holds issues no request as long as the marker is left alone: right after the call that
  stored it was suspended, and after any calls for that same base and any resumptions of
  which none ends an invocation for that base.
\<close>

theorem dedup_single_slot:
  "(requested_base cfg p ov \<noteq> [] \<and>
      (lastLoadedBaseRef s = Some (requested_base cfg p ov) \<or>
       pendingBaseRef s = Some (requested_base cfg p ov)) \<longrightarrow>
      loadRemoteModels cfg p ov False s = (s, Returned))
   \<and> (snd (loadRemoteModels cfg p ov force s) \<noteq> Returned \<longrightarrow>
        pendingBaseRef (fst (loadRemoteModels cfg p ov force s)) = Some (requested_base cfg p ov))
   \<and> (snd (loadRemoteModels cfg p ov force s) \<noteq> Returned \<and>
        requested_base cfg p' ov' = requested_base cfg p ov \<longrightarrow>
        loadRemoteModels cfg p' ov' False (fst (loadRemoteModels cfg p ov force s)) =
          (fst (loadRemoteModels cfg p ov force s), Returned))
   \<and> (snd (complete cfg ctx c s) \<noteq> Returned \<longrightarrow>
        pendingBaseRef (fst (complete cfg ctx c s)) = pendingBaseRef s)
   \<and> (snd (complete cfg ctx c s) = Returned \<longrightarrow>
        pendingBaseRef (fst (complete cfg ctx c s)) =
          (if pendingBaseRef s = Some (normalizedBase ctx) then None else pendingBaseRef s))
   \<and> (snd (loadRemoteModels cfg p ov force s) = Returned \<longrightarrow>
        pendingBaseRef (fst (loadRemoteModels cfg p ov force s)) = pendingBaseRef s \<or>
        pendingBaseRef (fst (loadRemoteModels cfg p ov force s)) = None)
   \<and> (b \<noteq> [] \<and> pendingBaseRef s = Some b \<and> marker_undisturbed cfg b es s \<and>
        requested_base cfg p' ov' = b \<longrightarrow>
        pendingBaseRef (run_events cfg es s) = Some b \<and>
        loadRemoteModels cfg p' ov' False (run_events cfg es s) =
          (run_events cfg es s, Returned))"
proof (intro conjI impI)
  assume "requested_base cfg p ov \<noteq> [] \<and>
      (lastLoadedBaseRef s = Some (requested_base cfg p ov) \<or>
       pendingBaseRef s = Some (requested_base cfg p ov))"
  then show "loadRemoteModels cfg p ov False s = (s, Returned)"
    by (simp add: loadRemoteModels_skip)
next
  assume "snd (loadRemoteModels cfg p ov force s) \<noteq> Returned"
  then show "pendingBaseRef (fst (loadRemoteModels cfg p ov force s)) =
      Some (requested_base cfg p ov)"
    by (simp add: loadRemoteModels_pending)
next
  assume h: "snd (loadRemoteModels cfg p ov force s) \<noteq> Returned \<and>
        requested_base cfg p' ov' = requested_base cfg p ov"
  then have "requested_base cfg p' ov' \<noteq> []"
    using loadRemoteModels_suspended_nonempty [of cfg p ov force s] by simp
  moreover from h have "pendingBaseRef (fst (loadRemoteModels cfg p ov force s)) =
      Some (requested_base cfg p' ov')"
    by (simp add: loadRemoteModels_pending)
  ultimately show "loadRemoteModels cfg p' ov' False (fst (loadRemoteModels cfg p ov force s)) =
          (fst (loadRemoteModels cfg p ov force s), Returned)"
    by (simp add: loadRemoteModels_skip)
next
  assume "snd (complete cfg ctx c s) \<noteq> Returned"
  then show "pendingBaseRef (fst (complete cfg ctx c s)) = pendingBaseRef s"
    by (simp add: complete_pending)
next
  assume "snd (complete cfg ctx c s) = Returned"
  then show "pendingBaseRef (fst (complete cfg ctx c s)) =
      (if pendingBaseRef s = Some (normalizedBase ctx) then None else pendingBaseRef s)"
    by (simp add: complete_pending)
next
  assume "snd (loadRemoteModels cfg p ov force s) = Returned"
  then show "pendingBaseRef (fst (loadRemoteModels cfg p ov force s)) = pendingBaseRef s \<or>
        pendingBaseRef (fst (loadRemoteModels cfg p ov force s)) = None"
    by (simp add: loadRemoteModels_pending)
next
  assume h: "b \<noteq> [] \<and> pendingBaseRef s = Some b \<and> marker_undisturbed cfg b es s \<and>
        requested_base cfg p' ov' = b"
  then show kept: "pendingBaseRef (run_events cfg es s) = Some b"
    by (simp add: marker_kept)
  with h show "loadRemoteModels cfg p' ov' False (run_events cfg es s) =
          (run_events cfg es s, Returned)"
    by (simp add: loadRemoteModels_skip)
qed

text \<open>
  C2 as stated fails: the marker remembers one base only, and the tab handler resets it.
  After non-forced calls for A, for B and for A again, none of which has received its
  response, two requests for A are in flight; so they are after two clicks on the custom
  tab in a row.
\<close>

theorem dedup_counterexample:
  "snd (dedup_call ''https://a.example'' dedup_start) = AwaitsFetch (dedup_ctx ''https://a.example'')
   \<and> snd (dedup_call ''https://b.example'' (fst (dedup_call ''https://a.example'' dedup_start))) =
       AwaitsFetch (dedup_ctx ''https://b.example'')
   \<and> snd (dedup_call ''https://a.example''
         (fst (dedup_call ''https://b.example'' (fst (dedup_call ''https://a.example'' dedup_start))))) =
       AwaitsFetch (dedup_ctx ''https://a.example'')
   \<and> map fetch_url (fetchCalls (fst (dedup_call ''https://a.example''
         (fst (dedup_call ''https://b.example'' (fst (dedup_call ''https://a.example'' dedup_start))))))) =
       [''https://a.example/models'', ''https://b.example/models'', ''https://a.example/models'']
   \<and> snd (dedup_click dedup_start) = AwaitsFetch (dedup_ctx ''https://a.example'')
   \<and> snd (dedup_click (fst (dedup_click dedup_start))) = AwaitsFetch (dedup_ctx ''https://a.example'')
   \<and> map fetch_url (fetchCalls (fst (dedup_click (fst (dedup_click dedup_start))))) =
       [''https://a.example/models'', ''https://a.example/models'']"
  by code_simp

lemma refresh_events_undisturbed:
  "marker_undisturbed spec_constants ''https://a.example'' refresh_events
     (fst (dedup_call ''https://a.example'' dedup_start))"
  by code_simp

text \<open>
  Two calls for the same base in a row: one request, and the marker is released when the
  request fails. A third call after the response has arrived and the list has been
  refreshed by a forced call: no further request.
\<close>

theorem dedup_single_slot_witness:
  "snd (dedup_call ''https://a.example'' dedup_start) \<noteq> Returned
   \<and> requested_base spec_constants (dedup_props ''https://a.example/'') None =
       requested_base spec_constants (dedup_props ''https://a.example'') None
   \<and> loadRemoteModels spec_constants (dedup_props ''https://a.example/'') None False
        (fst (dedup_call ''https://a.example'' dedup_start)) =
       (fst (dedup_call ''https://a.example'' dedup_start), Returned)
   \<and> length (fetchCalls (fst (dedup_call ''https://a.example'' dedup_start))) = 1
   \<and> pendingBaseRef (fst (dedup_call ''https://a.example'' dedup_start)) = Some ''https://a.example''
   \<and> pendingBaseRef (fst (complete spec_constants (dedup_ctx ''https://a.example'')
        (FetchSettled (Rejected ''Failed to fetch'')) (fst (dedup_call ''https://a.example'' dedup_start)))) = None
   \<and> marker_undisturbed spec_constants ''https://a.example'' refresh_events
        (fst (dedup_call ''https://a.example'' dedup_start))
   \<and> pendingBaseRef (run_events spec_constants refresh_events
        (fst (dedup_call ''https://a.example'' dedup_start))) = Some ''https://a.example''
   \<and> loadRemoteModels spec_constants (dedup_props ''https://a.example/'') None False
        (run_events spec_constants refresh_events (fst (dedup_call ''https://a.example'' dedup_start))) =
       (run_events spec_constants refresh_events (fst (dedup_call ''https://a.example'' dedup_start)),
        Returned)"
proof -
  let ?s0 = "effect_latestReasoningBase spec_constants (dedup_props ''https://a.example'') dedup_start"
  let ?s1 = "fst (dedup_call ''https://a.example'' dedup_start)"
  have base: "requested_base spec_constants (dedup_props ''https://a.example/'') None = ''https://a.example''"
    by code_simp
  have first: "snd (dedup_call ''https://a.example'' dedup_start) \<noteq> Returned
     \<and> requested_base spec_constants (dedup_props ''https://a.example/'') None =
       requested_base spec_constants (dedup_props ''https://a.example'') None
     \<and> loadRemoteModels spec_constants (dedup_props ''https://a.example/'') None False ?s1 =
       (?s1, Returned)
     \<and> length (fetchCalls ?s1) = 1
     \<and> pendingBaseRef ?s1 = Some ''https://a.example''
     \<and> pendingBaseRef (fst (complete spec_constants (dedup_ctx ''https://a.example'')
        (FetchSettled (Rejected ''Failed to fetch'')) ?s1)) = None"
    using dedup_single_slot [where cfg = spec_constants and p = "dedup_props ''https://a.example''"
      and ov = None and force = False and s = ?s0
      and p' = "dedup_props ''https://a.example/''" and ov' = None
      and ctx = "dedup_ctx ''https://a.example''" and c = "FetchSettled (Rejected ''Failed to fetch'')"
      and b = "''https://a.example''" and es = "[]"]
    by (simp add: dedup_call_def dedup_start_def dedup_props_def dedup_ctx_def requested_base_def
      eval_defs Let_def)
  have later: "pendingBaseRef (run_events spec_constants refresh_events ?s1) = Some ''https://a.example''
     \<and> loadRemoteModels spec_constants (dedup_props ''https://a.example/'') None False
        (run_events spec_constants refresh_events ?s1) =
       (run_events spec_constants refresh_events ?s1, Returned)"
    using dedup_single_slot [where cfg = spec_constants and p = "dedup_props ''https://a.example''"
      and ov = None and force = False and s = ?s1
      and p' = "dedup_props ''https://a.example/''" and ov' = None
      and ctx = "dedup_ctx ''https://a.example''" and c = "FetchSettled (Rejected ''Failed to fetch'')"
      and b = "''https://a.example''" and es = refresh_events]
      refresh_events_undisturbed base
    by (simp add: dedup_first_eq)
  from first later refresh_events_undisturbed show ?thesis by blast
qed

text \<open>
  Why no invocation for the same base may end in between: the cleanup compares bases,
  not invocations. After a call without force for A and a forced one for A, the first
  request fails; its cleanup clears the marker while the second request is in flight,
  and the next call without force for A sends a third request.
\<close>

lemma marker_released_by_older_invocation:
  "snd (dedup_call ''https://a.example'' dedup_start) = AwaitsFetch (dedup_ctx ''https://a.example'')
   \<and> snd (occur spec_constants (Call (dedup_props ''https://a.example'') None True)
        (fst (dedup_call ''https://a.example'' dedup_start))) =
       AwaitsFetch (dedup_ctx ''https://a.example'')
   \<and> pendingBaseRef (run_events spec_constants older_ends
        (fst (dedup_call ''https://a.example'' dedup_start))) = None
   \<and> snd (dedup_call ''https://a.example''
        (run_events spec_constants older_ends (fst (dedup_call ''https://a.example'' dedup_start)))) =
       AwaitsFetch (dedup_ctx ''https://a.example'')
   \<and> map fetch_url (fetchCalls (fst (dedup_call ''https://a.example''
        (run_events spec_constants older_ends (fst (dedup_call ''https://a.example'' dedup_start)))))) =
       [''https://a.example/models'', ''https://a.example/models'', ''https://a.example/models'']"
  by code_simp

subsection \<open>The transport-security check\<close>

lemma https_has_scheme: "prefix ''https://'' b \<Longrightarrow> sublist ''://'' b"
proof -
  assume "prefix ''https://'' b"
  then obtain r where "b = ''https'' @ ''://'' @ r"
    by (auto simp add: prefix_def)
  then show ?thesis
    using sublist_appendI by blast
qed

lemma localhost_has_scheme:
  "sublist ''://localhost'' b \<or> sublist ''://127.0.0.1'' b \<Longrightarrow> sublist ''://'' b"
proof -
  have "sublist ''://'' ''://localhost''" and "sublist ''://'' ''://127.0.0.1''"
    by (simp_all add: sublist_code)
  moreover assume "sublist ''://localhost'' b \<or> sublist ''://127.0.0.1'' b"
  ultimately show ?thesis
    using sublist_order.order_trans by blast
qed

lemma after_key_fetches_iff:
  "snd (after_key cfg ctx s) = AwaitsFetch ctx \<longleftrightarrow>
     prefix ''https://'' (normalizedBase ctx) \<or> sublist ''://localhost'' (normalizedBase ctx) \<or>
     sublist ''://127.0.0.1'' (normalizedBase ctx)"
  using https_has_scheme [of "normalizedBase ctx"] localhost_has_scheme [of "normalizedBase ctx"]
  by (auto simp add: after_key_def Let_def)

lemma after_key_fetchCalls:
  "fetchCalls (fst (after_key cfg ctx s)) =
     (if snd (after_key cfg ctx s) = AwaitsFetch ctx
      then fetchCalls s @
        [\<lparr>fetch_url = buildApiUrl cfg (normalizedBase ctx) ''/models'',
          fetch_authorization =
            (if has_key ctx then map_option (\<lambda>k. ''Bearer '' @ k) (apiKey ctx) else None)\<rparr>]
      else fetchCalls s)"
  by (simp add: after_key_def Let_def finally_block_def)

text \<open>
  C9 (the security guard is syntactic). Once the key is known, the invocation goes on to
  the network request exactly when its normalized base starts with \<^verbatim>\<open>https://\<close> or
  contains \<^verbatim>\<open>://localhost\<close> or \<^verbatim>\<open>://127.0.0.1\<close> somewhere; the host of the URL is
  never looked at. So there is a base that is not HTTPS and whose host is not a loopback
  address for which the request is sent all the same, whatever the helpers, the key and
  the state: one that carries \<^verbatim>\<open>://127.0.0.1\<close> in its query.
\<close>

theorem transport_check_is_syntactic:
  "(snd (after_key cfg ctx s) = AwaitsFetch ctx \<longleftrightarrow>
      prefix ''https://'' (normalizedBase ctx) \<or> sublist ''://localhost'' (normalizedBase ctx) \<or>
      sublist ''://127.0.0.1'' (normalizedBase ctx))
   \<and> (fetchCalls (fst (after_key cfg ctx s)) \<noteq> fetchCalls s \<longleftrightarrow>
      prefix ''https://'' (normalizedBase ctx) \<or> sublist ''://localhost'' (normalizedBase ctx) \<or>
      sublist ''://127.0.0.1'' (normalizedBase ctx))
   \<and> (\<exists>u. \<not> prefix ''https://'' u \<and> \<not> loopback_host (url_host u) \<and>
          (\<forall>cfg' key s'.
             fetchCalls (fst (after_key cfg'
                 \<lparr>normalizedBase = u, apiKey = key, selectedModel = []\<rparr> s')) =
               fetchCalls s' @
                 [\<lparr>fetch_url = buildApiUrl cfg' u ''/models'',
                   fetch_authorization =
                     (if has_key \<lparr>normalizedBase = u, apiKey = key, selectedModel = []\<rparr>
                      then map_option (\<lambda>k. ''Bearer '' @ k) key else None)\<rparr>]))"
proof (intro conjI)
  show "snd (after_key cfg ctx s) = AwaitsFetch ctx \<longleftrightarrow>
      prefix ''https://'' (normalizedBase ctx) \<or> sublist ''://localhost'' (normalizedBase ctx) \<or>
      sublist ''://127.0.0.1'' (normalizedBase ctx)"
    by (rule after_key_fetches_iff)
  then show "fetchCalls (fst (after_key cfg ctx s)) \<noteq> fetchCalls s \<longleftrightarrow>
      prefix ''https://'' (normalizedBase ctx) \<or> sublist ''://localhost'' (normalizedBase ctx) \<or>
      sublist ''://127.0.0.1'' (normalizedBase ctx)"
    by (simp add: after_key_fetchCalls)
  have a: "\<not> prefix ''https://'' path_url"
    by (simp add: path_url_def)
  have b: "\<not> loopback_host (url_host path_url)"
    by (simp add: path_url_def url_host_def loopback_host_def toLowerCase_def lower_char_def)
  have c: "sublist ''://127.0.0.1'' path_url"
    by (simp add: path_url_def sublist_code)
  have "fetchCalls (fst (after_key cfg'
                 \<lparr>normalizedBase = path_url, apiKey = key, selectedModel = []\<rparr> s')) =
               fetchCalls s' @
                 [\<lparr>fetch_url = buildApiUrl cfg' path_url ''/models'',
                   fetch_authorization =
                     (if has_key \<lparr>normalizedBase = path_url, apiKey = key, selectedModel = []\<rparr>
                      then map_option (\<lambda>k. ''Bearer '' @ k) key else None)\<rparr>]" for cfg' key s'
    using c by (simp add: after_key_fetchCalls after_key_fetches_iff)
  with a b show "\<exists>u. \<not> prefix ''https://'' u \<and> \<not> loopback_host (url_host u) \<and>
          (\<forall>cfg' key s'.
             fetchCalls (fst (after_key cfg'
                 \<lparr>normalizedBase = u, apiKey = key, selectedModel = []\<rparr> s')) =
               fetchCalls s' @
                 [\<lparr>fetch_url = buildApiUrl cfg' u ''/models'',
                   fetch_authorization =
                     (if has_key \<lparr>normalizedBase = u, apiKey = key, selectedModel = []\<rparr>
                      then map_option (\<lambda>k. ''Bearer '' @ k) key else None)\<rparr>])"
    by blast
qed

text \<open>The check at work: a remote HTTP base is stopped, the base with the query is not.\<close>

theorem transport_check_is_syntactic_witness:
  "snd (after_key spec_constants
         \<lparr>normalizedBase = ''http://remote.example.com'', apiKey = None, selectedModel = ''''\<rparr>
         (initial_component spec_constants remote_props)) = Returned
   \<and> fetchCalls (fst (after_key spec_constants
         \<lparr>normalizedBase = path_url, apiKey = None, selectedModel = ''''\<rparr>
         (initial_component spec_constants remote_props))) =
       [\<lparr>fetch_url = ''http://evil.example/v1?next=://127.0.0.1/models'',
         fetch_authorization = None\<rparr>]
   \<and> url_host path_url = ''evil.example''"
  using transport_check_is_syntactic [where cfg = spec_constants
      and ctx = "\<lparr>normalizedBase = ''http://remote.example.com'', apiKey = None, selectedModel = ''''\<rparr>"
      and s = "initial_component spec_constants remote_props"]
    transport_check_is_syntactic [where cfg = spec_constants
      and ctx = "\<lparr>normalizedBase = path_url, apiKey = None, selectedModel = ''''\<rparr>"
      and s = "initial_component spec_constants remote_props"]
  by (simp add: path_url_def remote_props_def url_host_def eval_defs Let_def)

text \<open>
  C3 (transport-security rejection) does not hold of the code. The base
  \<^verbatim>\<open>http://localhost.evil.example\<close> is plain HTTP and its host is not a loopback
  address, yet the loader, called on a fresh component with that base saved, sends the
  request, bearer token included, and sets no error. The scenario of the spec,
  \<^verbatim>\<open>http://remote.example.com\<close>, is rejected as described.
\<close>

theorem transport_check_bypassed:
  "\<not> prefix ''https://'' (requested_base spec_constants bypass_props None)
   \<and> url_host (requested_base spec_constants bypass_props None) = ''localhost.evil.example''
   \<and> \<not> loopback_host (url_host (requested_base spec_constants bypass_props None))
   \<and> loadRemoteModels spec_constants bypass_props None False
        (initial_component spec_constants bypass_props) =
       ((initial_component spec_constants bypass_props)
          \<lparr>customModelOptionsRef := 1, customModelsLoading := True,
           pendingBaseRef := Some ''http://localhost.evil.example'',
           fetchCalls := [\<lparr>fetch_url = ''http://localhost.evil.example/models'',
                          fetch_authorization = Some ''Bearer sk-live-1''\<rparr>]\<rparr>,
        AwaitsFetch \<lparr>normalizedBase = ''http://localhost.evil.example'',
                      apiKey = Some ''sk-live-1'', selectedModel = ''''\<rparr>)
   \<and> loadRemoteModels spec_constants remote_props None False
        (initial_component spec_constants remote_props) =
       ((initial_component spec_constants remote_props)
          \<lparr>customModelOptionsRef := 1, customModelsError := Some https_error\<rparr>,
        Returned)"
  by (simp add: remote_props_def bypass_props_def requested_base_def url_host_def loopback_host_def
      toLowerCase_def lower_char_def eval_defs Let_def)

subsection \<open>Empty and scheme-less bases\<close>

lemma finally_block_fetchCalls [simp]: "fetchCalls (finally_block ctx s) = fetchCalls s"
  by (simp add: finally_block_def Let_def)

lemma catch_block_fetchCalls [simp]: "fetchCalls (catch_block ctx m s) = fetchCalls s"
  by (simp add: catch_block_def setCustomModelOptions_def Let_def)

lemma after_key_no_scheme:
  assumes "\<not> sublist ''://'' (normalizedBase ctx)"
  shows "after_key cfg ctx s =
           (finally_block ctx
              (if still_current ctx s
               then s\<lparr>customModelsError := Some scheme_error, customModelsLoading := False\<rparr>
               else s),
            Returned)"
  using assms by (simp add: after_key_def)

lemma finally_block_shown:
  "customModelsError (finally_block ctx s) = customModelsError s"
  "customModelOptions (finally_block ctx s) = customModelOptions s"
  "customModelsLoading (finally_block ctx s) = (customModelsLoading s \<and> \<not> still_current ctx s)"
  by (auto simp add: finally_block_def Let_def still_current_def)

lemma catch_block_still_current:
  "still_current ctx (catch_block ctx' m s) = still_current ctx s"
  by (simp add: catch_block_def setCustomModelOptions_def still_current_def Let_def)

text \<open>
  C4 (empty or scheme-less base), as the code has it. When the base an invocation works
  on normalizes to the empty string, the invocation returns at once without a request
  and, the component being mounted, leaves options empty, no error and the loading flag
  off. When the normalized base has no \<^verbatim>\<open>://\<close>, no step of the invocation sends a
  request: the call itself either returns or waits for the key, and the resumption after
  the key returns, however the vault call has settled. The key is resolved before the
  scheme is looked at. So, under the guard of every update after the start (mounted, and
  still the latest requested base), the error is the prompt for a full URL, with the
  loading flag off, when the key is held in the property and the call is not skipped as
  a duplicate, or when the vault call has answered, with a key or without; when the vault
  call fails, the scheme check is not reached and the error is the one of the catch
  block: the message of that failure, or the hint about the key.
\<close>

theorem no_request_without_base_or_scheme:
  "(requested_base cfg p ov = [] \<longrightarrow>
      snd (loadRemoteModels cfg p ov force s) = Returned \<and>
      fetchCalls (fst (loadRemoteModels cfg p ov force s)) = fetchCalls s \<and>
      (isMountedRef s \<longrightarrow>
         customModelOptions (fst (loadRemoteModels cfg p ov force s)) = [] \<and>
         customModelsError (fst (loadRemoteModels cfg p ov force s)) = None \<and>
         \<not> customModelsLoading (fst (loadRemoteModels cfg p ov force s))))
   \<and> (\<not> sublist ''://'' (requested_base cfg p ov) \<longrightarrow>
      fetchCalls (fst (loadRemoteModels cfg p ov force s)) = fetchCalls s \<and>
      (snd (loadRemoteModels cfg p ov force s) = Returned \<or>
       snd (loadRemoteModels cfg p ov force s) =
         AwaitsGetOpenAIKey \<lparr>normalizedBase = requested_base cfg p ov, apiKey = None,
                             selectedModel = reasoningModel p\<rparr>))
   \<and> (\<not> sublist ''://'' (normalizedBase ctx) \<longrightarrow>
      snd (resume_getOpenAIKey cfg ctx r s) = Returned \<and>
      fetchCalls (fst (resume_getOpenAIKey cfg ctx r s)) = fetchCalls s)
   \<and> (\<not> sublist ''://'' (normalizedBase ctx) \<and> still_current ctx s \<longrightarrow>
      customModelsError (fst (resume_getOpenAIKey cfg ctx (Fulfilled k) s)) = Some scheme_error \<and>
      \<not> customModelsLoading (fst (resume_getOpenAIKey cfg ctx (Fulfilled k) s)))
   \<and> (\<not> sublist ''://'' (requested_base cfg p ov) \<and> requested_base cfg p ov \<noteq> [] \<and>
       (force \<or> (lastLoadedBaseRef s \<noteq> Some (requested_base cfg p ov) \<and>
                  pendingBaseRef s \<noteq> Some (requested_base cfg p ov))) \<and>
       js_trim (openaiApiKey p) \<noteq> [] \<and> isMountedRef s \<and>
       (ov \<noteq> None \<or> latestReasoningBaseRef s = requested_base cfg p ov) \<longrightarrow>
      snd (loadRemoteModels cfg p ov force s) = Returned \<and>
      customModelsError (fst (loadRemoteModels cfg p ov force s)) = Some scheme_error \<and>
      \<not> customModelsLoading (fst (loadRemoteModels cfg p ov force s)))
   \<and> (still_current ctx s \<longrightarrow>
      customModelsError (fst (resume_getOpenAIKey cfg ctx (Rejected m) s)) =
        Some (if unauthorized_test (if m = [] then fallback_error else m) \<and> \<not> has_key ctx
              then unauthorized_hint else (if m = [] then fallback_error else m)) \<and>
      \<not> customModelsLoading (fst (resume_getOpenAIKey cfg ctx (Rejected m) s)))"
proof (intro conjI impI)
  assume "requested_base cfg p ov = []"
  then show "snd (loadRemoteModels cfg p ov force s) = Returned"
    and "fetchCalls (fst (loadRemoteModels cfg p ov force s)) = fetchCalls s"
    by (simp_all add: loadRemoteModels_def requested_base_def setCustomModelOptions_def)
next
  assume "requested_base cfg p ov = []" and "isMountedRef s"
  then show "customModelOptions (fst (loadRemoteModels cfg p ov force s)) = []"
    and "customModelsError (fst (loadRemoteModels cfg p ov force s)) = None"
    and "\<not> customModelsLoading (fst (loadRemoteModels cfg p ov force s))"
    by (simp_all add: loadRemoteModels_def requested_base_def setCustomModelOptions_def)
next
  assume "\<not> sublist ''://'' (requested_base cfg p ov)"
  then show "fetchCalls (fst (loadRemoteModels cfg p ov force s)) = fetchCalls s"
    and "snd (loadRemoteModels cfg p ov force s) = Returned \<or>
       snd (loadRemoteModels cfg p ov force s) =
         AwaitsGetOpenAIKey \<lparr>normalizedBase = requested_base cfg p ov, apiKey = None,
                             selectedModel = reasoningModel p\<rparr>"
    by (simp_all add: loadRemoteModels_def requested_base_def Let_def after_key_no_scheme
        setCustomModelOptions_def)
next
  assume "\<not> sublist ''://'' (normalizedBase ctx)"
  then show "snd (resume_getOpenAIKey cfg ctx r s) = Returned"
    and "fetchCalls (fst (resume_getOpenAIKey cfg ctx r s)) = fetchCalls s"
    by (cases r; simp add: resume_getOpenAIKey_def after_key_no_scheme)+
next
  assume "\<not> sublist ''://'' (normalizedBase ctx) \<and> still_current ctx s"
  then show "customModelsError (fst (resume_getOpenAIKey cfg ctx (Fulfilled k) s)) = Some scheme_error"
    and "\<not> customModelsLoading (fst (resume_getOpenAIKey cfg ctx (Fulfilled k) s))"
    by (simp_all add: resume_getOpenAIKey_def after_key_no_scheme finally_block_shown)
next
  assume h: "\<not> sublist ''://'' (requested_base cfg p ov) \<and> requested_base cfg p ov \<noteq> [] \<and>
       (force \<or> (lastLoadedBaseRef s \<noteq> Some (requested_base cfg p ov) \<and>
                  pendingBaseRef s \<noteq> Some (requested_base cfg p ov))) \<and>
       js_trim (openaiApiKey p) \<noteq> [] \<and> isMountedRef s \<and>
       (ov \<noteq> None \<or> latestReasoningBaseRef s = requested_base cfg p ov)"
  define base where "base = requested_base cfg p ov"
  define s3 where "s3 = setCustomModelOptions []
      ((if ov \<noteq> None then s\<lparr>latestReasoningBaseRef := base\<rparr> else s)
         \<lparr>pendingBaseRef := Some base, customModelsLoading := True, customModelsError := None\<rparr>)"
  define ctx' where "ctx' = \<lparr>normalizedBase = base, apiKey = Some (js_trim (openaiApiKey p)),
      selectedModel = reasoningModel p\<rparr>"
  from h have run: "loadRemoteModels cfg p ov force s = after_key cfg ctx' s3"
    unfolding base_def s3_def ctx'_def loadRemoteModels_def requested_base_def Let_def
      setCustomModelOptions_def
    by (cases ov) auto
  from h have cur: "still_current ctx' s3"
    by (auto simp add: base_def s3_def ctx'_def still_current_def setCustomModelOptions_def)
  from h have ns: "\<not> sublist ''://'' (normalizedBase ctx')"
    by (simp add: ctx'_def base_def)
  show "snd (loadRemoteModels cfg p ov force s) = Returned"
    by (simp add: run after_key_no_scheme [OF ns])
  show "customModelsError (fst (loadRemoteModels cfg p ov force s)) = Some scheme_error"
    using cur by (simp add: run after_key_no_scheme [OF ns] finally_block_shown)
  show "\<not> customModelsLoading (fst (loadRemoteModels cfg p ov force s))"
    using cur by (simp add: run after_key_no_scheme [OF ns] finally_block_shown)
next
  assume cur: "still_current ctx s"
  then show "customModelsError (fst (resume_getOpenAIKey cfg ctx (Rejected m) s)) =
        Some (if unauthorized_test (if m = [] then fallback_error else m) \<and> \<not> has_key ctx
              then unauthorized_hint else (if m = [] then fallback_error else m))"
    by (simp add: resume_getOpenAIKey_def finally_block_shown catch_block_def
        setCustomModelOptions_def Let_def)
  from cur show "\<not> customModelsLoading (fst (resume_getOpenAIKey cfg ctx (Rejected m) s))"
    by (simp add: resume_getOpenAIKey_def finally_block_shown catch_block_still_current)
qed

text \<open>
  C4 as stated fails: a base without scheme does not always get the prompt for a full
  URL. With no key in the property the vault is asked first; when that call fails, the
  mounted component whose latest requested base is still this one shows the failure's
  message instead. No request is sent.
\<close>

theorem scheme_prompt_counterexample:
  "loadRemoteModels spec_constants schemeless_props None False
        (initial_component spec_constants schemeless_props) =
       ((initial_component spec_constants schemeless_props)
          \<lparr>customModelOptionsRef := 1, customModelsLoading := True,
           pendingBaseRef := Some ''api.example.com/v1''\<rparr>,
        AwaitsGetOpenAIKey schemeless_ctx)
   \<and> \<not> sublist ''://'' (normalizedBase schemeless_ctx)
   \<and> still_current schemeless_ctx
        (fst (loadRemoteModels spec_constants schemeless_props None False
          (initial_component spec_constants schemeless_props)))
   \<and> resume_getOpenAIKey spec_constants schemeless_ctx (Rejected ''vault locked'')
        (fst (loadRemoteModels spec_constants schemeless_props None False
          (initial_component spec_constants schemeless_props))) =
       ((initial_component spec_constants schemeless_props)
          \<lparr>customModelOptionsRef := 2, customModelsError := Some ''vault locked''\<rparr>,
        Returned)
   \<and> ''vault locked'' \<noteq> scheme_error"
  by code_simp

text \<open>A blank base and a base without scheme, run from a fresh component.\<close>

theorem no_request_without_base_or_scheme_witness:
  "requested_base spec_constants blank_props None = []
   \<and> loadRemoteModels spec_constants blank_props None True
        ((initial_component spec_constants blank_props)
           \<lparr>customModelsLoading := True, customModelsError := Some ''old error''\<rparr>) =
       ((initial_component spec_constants blank_props)\<lparr>customModelOptionsRef := 1\<rparr>, Returned)
   \<and> \<not> sublist ''://'' (requested_base spec_constants schemeless_props None)
   \<and> loadRemoteModels spec_constants schemeless_props None False
        (initial_component spec_constants schemeless_props) =
       ((initial_component spec_constants schemeless_props)
          \<lparr>customModelOptionsRef := 1, customModelsLoading := True,
           pendingBaseRef := Some ''api.example.com/v1''\<rparr>,
        AwaitsGetOpenAIKey schemeless_ctx)
   \<and> still_current schemeless_ctx
        (fst (loadRemoteModels spec_constants schemeless_props None False
          (initial_component spec_constants schemeless_props)))
   \<and> resume_getOpenAIKey spec_constants schemeless_ctx (Fulfilled None)
        (fst (loadRemoteModels spec_constants schemeless_props None False
          (initial_component spec_constants schemeless_props))) =
       ((initial_component spec_constants schemeless_props)
          \<lparr>customModelOptionsRef := 1, customModelsError := Some scheme_error\<rparr>,
        Returned)
   \<and> customModelsError (fst (resume_getOpenAIKey spec_constants schemeless_ctx
        (Rejected ''vault locked'')
        (fst (loadRemoteModels spec_constants schemeless_props None False
          (initial_component spec_constants schemeless_props))))) = Some ''vault locked''"
  using no_request_without_base_or_scheme [where cfg = spec_constants and p = blank_props
      and ov = None and force = True
      and s = "(initial_component spec_constants blank_props)
           \<lparr>customModelsLoading := True, customModelsError := Some ''old error''\<rparr>"
      and ctx = schemeless_ctx and r = "Fulfilled None" and k = None and m = "''vault locked''"]
    no_request_without_base_or_scheme [where cfg = spec_constants and p = schemeless_props
      and ov = None and force = False
      and s = "initial_component spec_constants schemeless_props"
      and ctx = schemeless_ctx and r = "Fulfilled None" and k = None and m = "''vault locked''"]
    no_request_without_base_or_scheme [where cfg = spec_constants and p = schemeless_props
      and ov = None and force = False
      and s = "fst (loadRemoteModels spec_constants schemeless_props None False
          (initial_component spec_constants schemeless_props))"
      and ctx = schemeless_ctx and r = "Fulfilled None" and k = None and m = "''vault locked''"]
  by (simp add: blank_props_def schemeless_props_def schemeless_ctx_def requested_base_def
      eval_defs unauthorized_test_def word_char_def Let_def)

subsection \<open>Errors of the endpoint\<close>

lemma digit_char_digit: "d < 10 \<Longrightarrow> digit_char d \<in> set ''0123456789''"
  unfolding digit_char_def by (rule nth_mem) simp

lemma number_toString_digits: "set (number_toString n) \<subseteq> set ''0123456789''"
proof (induction n rule: number_toString.induct)
  case (1 n)
  show ?case
  proof (cases "n < 10")
    case True
    then show ?thesis
      using digit_char_digit [of n] by (subst number_toString.simps) simp
  next
    case False
    have "n mod 10 < 10" by simp
    then have "digit_char (n mod 10) \<in> set ''0123456789''"
      by (rule digit_char_digit)
    with False "1.IH" show ?thesis
      by (subst number_toString.simps) simp
  qed
qed

lemma number_toString_nonempty: "number_toString n \<noteq> []"
  by (subst number_toString.simps) simp

lemma digit_not_whitespace: "c \<in> set ''0123456789'' \<Longrightarrow> \<not> js_whitespace c"
  by (auto simp add: js_whitespace_def)

lemma rtrim_Cons:
  "rev (dropWhile P (rev (x # xs))) =
     (if \<forall>y\<in>set (x # xs). P y then [] else x # rev (dropWhile P (rev xs)))"
  by (auto simp add: dropWhile_append)

lemma js_trim_keeps_head:
  assumes "xs \<noteq> []" and "\<not> js_whitespace (hd xs)" and "\<not> js_whitespace (last xs)"
  shows "js_trim (xs @ ys) = xs @ rev (dropWhile js_whitespace (rev ys))"
proof -
  from assms obtain x xs' where xs: "xs = x # xs'" and x: "\<not> js_whitespace x"
    by (cases xs) auto
  from assms obtain l xs'' where xs2: "rev xs = l # xs''" and l: "\<not> js_whitespace l"
    by (cases xs rule: rev_cases) auto
  have "dropWhile js_whitespace (xs @ ys) = xs @ ys"
    using xs x by simp
  moreover have "dropWhile js_whitespace (rev ys @ rev xs) =
      dropWhile js_whitespace (rev ys) @ rev xs"
    using xs2 l by (auto simp add: dropWhile_append)
  ultimately show ?thesis
    by (simp add: js_trim_def)
qed

lemma js_trim_summary:
  "js_trim (number_toString n @ '' '' @ rest) =
     number_toString n @ rev (dropWhile js_whitespace (rev ('' '' @ rest)))"
proof (rule js_trim_keeps_head)
  show ne: "number_toString n \<noteq> []"
    by (rule number_toString_nonempty)
  then have "hd (number_toString n) \<in> set (number_toString n)"
    and "last (number_toString n) \<in> set (number_toString n)"
    by simp_all
  then show "\<not> js_whitespace (hd (number_toString n))"
    and "\<not> js_whitespace (last (number_toString n))"
    using number_toString_digits [of n] digit_not_whitespace by blast+
qed

lemma error_summary_shape:
  "error_summary resp body =
     number_toString (status resp) @ '' '' @ (if body \<noteq> [] then take 200 body else statusText resp)"
  by (simp add: error_summary_def)

lemma js_trim_error_summary_prefix:
  "prefix (number_toString (status resp)) (js_trim (error_summary resp body))"
  by (simp only: error_summary_shape js_trim_summary) simp

lemma js_trim_error_summary_nonempty: "js_trim (error_summary resp body) \<noteq> []"
  using js_trim_error_summary_prefix [of resp body] number_toString_nonempty [of "status resp"]
  by auto

lemma unauthorized_word_then_space:
  assumes "w = ''401'' \<or> w = ''403''" and "z = [] \<or> (\<exists>z'. z = CHR '' '' # z')"
  shows "unauthorized_test (w @ z)"
  using assms by (auto simp add: unauthorized_test_def word_char_def)

lemma unauthorized_status_word:
  assumes "w = ''401'' \<or> w = ''403''"
  shows "unauthorized_test (w @ rev (dropWhile js_whitespace (rev ('' '' @ rest))))"
proof -
  have "rev (dropWhile js_whitespace (rev ('' '' @ rest))) = [] \<or>
      (\<exists>z. rev (dropWhile js_whitespace (rev ('' '' @ rest))) = CHR '' '' # z)"
    by (metis rtrim_Cons append_Cons append_Nil)
  with assms show ?thesis
    by (rule unauthorized_word_then_space)
qed

lemma number_toString_401: "number_toString 401 = ''401''" and number_toString_403: "number_toString 403 = ''403''"
  by (simp_all add: number_toString.simps digit_char_def)

lemma unauthorized_status:
  assumes "status resp = 401 \<or> status resp = 403"
  shows "unauthorized_test (js_trim (error_summary resp body))"
proof -
  from assms have "number_toString (status resp) = ''401'' \<or> number_toString (status resp) = ''403''"
    by (auto simp add: number_toString_401 number_toString_403)
  then show ?thesis
    by (simp only: error_summary_shape js_trim_summary) (rule unauthorized_status_word)
qed

lemma catch_block_error:
  assumes "still_current ctx s"
  shows "customModelsError (catch_block ctx m s) =
     Some (if unauthorized_test (if m = [] then fallback_error else m) \<and> \<not> has_key ctx
           then unauthorized_hint else (if m = [] then fallback_error else m))"
    and "customModelOptions (catch_block ctx m s) = []"
  using assms by (simp_all add: catch_block_def setCustomModelOptions_def Let_def)

lemma resume_text_error:
  assumes "still_current ctx s"
  shows "customModelsError (fst (resume_text ctx resp body s)) =
     Some (if unauthorized_test (js_trim (error_summary resp body)) \<and> \<not> has_key ctx
           then unauthorized_hint else js_trim (error_summary resp body))"
  using assms
  by (simp add: resume_text_def finally_block_shown catch_block_error
      js_trim_error_summary_nonempty)

lemma http_waiting_eq:
  "http_waiting =
     \<lparr>customModelOptions = [], customModelOptionsRef = 1, customModelsLoading = True,
      customModelsError = None, customBaseInput = ''https://api.example.com/v1'',
      selectedCloudProvider = ''openai'', lastLoadedBaseRef = None,
      pendingBaseRef = Some ''https://api.example.com/v1'', isMountedRef = True,
      latestReasoningBaseRef = ''https://api.example.com/v1'',
      fetchCalls = [\<lparr>fetch_url = ''https://api.example.com/v1/models'',
                     fetch_authorization = None\<rparr>],
      setReasoningModelCalls = []\<rparr>"
  by (simp add: http_waiting_def http_ctx_def http_props_def eval_defs Let_def)

lemmas http_eval =
  http_waiting_eq http_ctx_def response_500_def response_401_def resume_text_def
  resume_fetch_def catch_block_def finally_block_def still_current_def has_key_def
  setCustomModelOptions_def error_summary_def response_ok_def js_trim_def js_whitespace_def
  unauthorized_test_def word_char_def number_toString.simps digit_char_def Let_def

text \<open>
  C5 (HTTP error surfacing), as the code has it. A response that is not 2xx makes the
  loader read the body; the message is the status code, a space and the first 200
  characters of the body, or the status text when the body is empty, trimmed, so it
  starts with the status code. Shown under the guard of C1: when the status is 401 or
  403 and no key was resolved, the error is the hint about adding an API key; when a key
  was resolved, or the message holds neither 401 nor 403 as a whole word, the error is
  the message itself. Nothing is said here about a message that holds such a word while
  the status is another one and no key was resolved.
\<close>

theorem http_error_surfaced:
  "(\<not> response_ok resp \<longrightarrow> resume_fetch ctx (Fulfilled resp) s = (s, AwaitsText ctx resp))
   \<and> error_summary resp body =
       number_toString (status resp) @ '' '' @
         (if body \<noteq> [] then take 200 body else statusText resp)
   \<and> prefix (number_toString (status resp)) (js_trim (error_summary resp body))
   \<and> (still_current ctx s \<and> (status resp = 401 \<or> status resp = 403) \<and> \<not> has_key ctx \<longrightarrow>
        customModelsError (fst (resume_text ctx resp body s)) = Some unauthorized_hint)
   \<and> (still_current ctx s \<and>
        (has_key ctx \<or> \<not> unauthorized_test (js_trim (error_summary resp body))) \<longrightarrow>
        customModelsError (fst (resume_text ctx resp body s)) =
          Some (js_trim (error_summary resp body)))"
proof (intro conjI impI)
  assume "\<not> response_ok resp"
  then show "resume_fetch ctx (Fulfilled resp) s = (s, AwaitsText ctx resp)"
    by (simp add: resume_fetch_def)
next
  show "error_summary resp body =
       number_toString (status resp) @ '' '' @
         (if body \<noteq> [] then take 200 body else statusText resp)"
    by (rule error_summary_shape)
next
  show "prefix (number_toString (status resp)) (js_trim (error_summary resp body))"
    by (rule js_trim_error_summary_prefix)
next
  assume h: "still_current ctx s \<and> (status resp = 401 \<or> status resp = 403) \<and> \<not> has_key ctx"
  then have "unauthorized_test (js_trim (error_summary resp body))"
    by (simp add: unauthorized_status)
  with h show "customModelsError (fst (resume_text ctx resp body s)) = Some unauthorized_hint"
    by (simp add: resume_text_error)
next
  assume "still_current ctx s \<and>
        (has_key ctx \<or> \<not> unauthorized_test (js_trim (error_summary resp body)))"
  then show "customModelsError (fst (resume_text ctx resp body s)) =
          Some (js_trim (error_summary resp body))"
    by (auto simp add: resume_text_error)
qed

text \<open>
  C5 as stated fails: a 500 response whose body mentions 401, with no key resolved, shows
  the hint, which contains neither the status code nor the body.
\<close>

theorem http_error_counterexample:
  "\<not> response_ok response_500
   \<and> still_current http_ctx http_waiting
   \<and> customModelsError (fst (resume_text http_ctx response_500 ''upstream said 401'' http_waiting)) =
       Some unauthorized_hint
   \<and> \<not> sublist ''500'' unauthorized_hint
   \<and> \<not> sublist ''upstream said 401'' unauthorized_hint"
  by (simp add: http_eval unauthorized_hint_def sublist_code)

text \<open>Responses 500 and 401 delivered to a component waiting without a key, and 401 with one.\<close>

theorem http_error_surfaced_witness:
  "\<not> response_ok response_500
   \<and> resume_fetch http_ctx (Fulfilled response_500) http_waiting =
       (http_waiting, AwaitsText http_ctx response_500)
   \<and> still_current http_ctx http_waiting
   \<and> \<not> unauthorized_test (js_trim (error_summary response_500 ''boom  ''))
   \<and> customModelsError (fst (resume_text http_ctx response_500 ''boom  '' http_waiting)) =
       Some ''500 boom''
   \<and> customModelsError (fst (resume_text http_ctx response_500 [] http_waiting)) =
       Some ''500 Internal Server Error''
   \<and> \<not> has_key http_ctx
   \<and> customModelsError (fst (resume_text http_ctx response_401 ''denied'' http_waiting)) =
       Some unauthorized_hint
   \<and> has_key (http_ctx\<lparr>apiKey := Some ''sk-1''\<rparr>)
   \<and> customModelsError (fst (resume_text (http_ctx\<lparr>apiKey := Some ''sk-1''\<rparr>) response_401
         ''denied'' http_waiting)) = Some ''401 denied''"
  using http_error_surfaced [where resp = response_500 and ctx = http_ctx and s = http_waiting
      and body = "''boom  ''"]
    http_error_surfaced [where resp = response_500 and ctx = http_ctx and s = http_waiting
      and body = "[]"]
    http_error_surfaced [where resp = response_401 and ctx = http_ctx and s = http_waiting
      and body = "''denied''"]
    http_error_surfaced [where resp = response_401 and ctx = "http_ctx\<lparr>apiKey := Some ''sk-1''\<rparr>"
      and s = http_waiting and body = "''denied''"]
  by (simp add: http_eval)

text \<open>
  C10 (the unauthorized hint is message-based). Whatever was thrown, the error shown is the
  hint exactly when no key was resolved and the message (the fallback text when it is
  empty) holds 401 or 403 as a whole word; otherwise it is the message. The status code
  plays no part: there is a 500 response that shows the hint whenever no key was
  resolved, and every failed response, 401 and 403 included, shows its own message when a
  key was resolved.
\<close>

theorem unauthorized_hint_is_message_based:
  "(still_current ctx s \<longrightarrow>
      customModelsError (catch_block ctx m s) =
        Some (if \<not> has_key ctx \<and> unauthorized_test (if m = [] then fallback_error else m)
              then unauthorized_hint
              else (if m = [] then fallback_error else m)))
   \<and> (still_current ctx s \<longrightarrow>
      customModelsError (fst (resume_text ctx resp body s)) =
        Some (if \<not> has_key ctx \<and> unauthorized_test (js_trim (error_summary resp body))
              then unauthorized_hint
              else js_trim (error_summary resp body)))
   \<and> (still_current ctx s \<and> has_key ctx \<longrightarrow>
      customModelsError (fst (resume_text ctx resp body s)) =
        Some (js_trim (error_summary resp body)))
   \<and> (\<exists>resp' body'. status resp' = 500 \<and> \<not> response_ok resp' \<and>
        (\<forall>ctx' s'. still_current ctx' s' \<and> \<not> has_key ctx' \<longrightarrow>
           customModelsError (fst (resume_text ctx' resp' body' s')) = Some unauthorized_hint))"
proof (intro conjI impI)
  assume "still_current ctx s"
  then show "customModelsError (catch_block ctx m s) =
        Some (if \<not> has_key ctx \<and> unauthorized_test (if m = [] then fallback_error else m)
              then unauthorized_hint
              else (if m = [] then fallback_error else m))"
    by (auto simp add: catch_block_error)
next
  assume "still_current ctx s"
  then show "customModelsError (fst (resume_text ctx resp body s)) =
        Some (if \<not> has_key ctx \<and> unauthorized_test (js_trim (error_summary resp body))
              then unauthorized_hint
              else js_trim (error_summary resp body))"
    by (auto simp add: resume_text_error)
next
  assume "still_current ctx s \<and> has_key ctx"
  then show "customModelsError (fst (resume_text ctx resp body s)) =
        Some (js_trim (error_summary resp body))"
    by (simp add: resume_text_error)
next
  have "unauthorized_test (js_trim (error_summary response_500 ''upstream said 401''))"
    by (simp add: response_500_def error_summary_def js_trim_def js_whitespace_def
        unauthorized_test_def word_char_def number_toString.simps digit_char_def)
  then have "\<forall>ctx' s'. still_current ctx' s' \<and> \<not> has_key ctx' \<longrightarrow>
      customModelsError (fst (resume_text ctx' response_500 ''upstream said 401'' s')) =
        Some unauthorized_hint"
    by (simp add: resume_text_error)
  moreover have "status response_500 = 500" and "\<not> response_ok response_500"
    by (simp_all add: response_500_def response_ok_def)
  ultimately show "\<exists>resp' body'. status resp' = 500 \<and> \<not> response_ok resp' \<and>
        (\<forall>ctx' s'. still_current ctx' s' \<and> \<not> has_key ctx' \<longrightarrow>
           customModelsError (fst (resume_text ctx' resp' body' s')) = Some unauthorized_hint)"
    by blast
qed

text \<open>A network error mentioning 403, one that does not, an error without message, and a 401 with a key.\<close>

theorem unauthorized_hint_is_message_based_witness:
  "still_current http_ctx http_waiting
   \<and> \<not> has_key http_ctx
   \<and> customModelsError (catch_block http_ctx ''socket hang up after 403'' http_waiting) =
       Some unauthorized_hint
   \<and> customModelsError (catch_block http_ctx ''Failed to fetch'' http_waiting) =
       Some ''Failed to fetch''
   \<and> customModelsError (catch_block http_ctx [] http_waiting) = Some fallback_error
   \<and> customModelsError (fst (resume_text http_ctx response_500 ''see RFC 7235: 401''
        http_waiting)) = Some unauthorized_hint
   \<and> has_key (http_ctx\<lparr>apiKey := Some ''sk-1''\<rparr>)
   \<and> customModelsError (fst (resume_text (http_ctx\<lparr>apiKey := Some ''sk-1''\<rparr>) response_401
        ''bad key'' http_waiting)) = Some ''401 bad key''"
  using unauthorized_hint_is_message_based [where ctx = http_ctx and s = http_waiting
      and m = "''socket hang up after 403''" and resp = response_500
      and body = "''see RFC 7235: 401''"]
    unauthorized_hint_is_message_based [where ctx = http_ctx and s = http_waiting
      and m = "''Failed to fetch''" and resp = response_500 and body = "''see RFC 7235: 401''"]
    unauthorized_hint_is_message_based [where ctx = http_ctx and s = http_waiting
      and m = "[]" and resp = response_500 and body = "''see RFC 7235: 401''"]
    unauthorized_hint_is_message_based [where ctx = "http_ctx\<lparr>apiKey := Some ''sk-1''\<rparr>"
      and s = http_waiting and m = "[]" and resp = response_401 and body = "''bad key''"]
  by (simp add: http_eval fallback_error_def)

subsection \<open>Reading the payload and selecting a model\<close>

lemma mapModel_lacking: "lacks_id_and_name item \<Longrightarrow> mapModel item = None"
  by (simp add: lacks_id_and_name_def mapModel_def js_or_def)

lemma map_filter_drop:
  "(\<And>x. P x \<Longrightarrow> f x = None) \<Longrightarrow>
     List.map_filter f (filter (\<lambda>x. \<not> P x) xs) = List.map_filter f xs"
  by (induction xs) (auto simp add: List.map_filter_simps split: option.split)

lemma mappedModels_drops_lacking:
  "mappedModels payload =
     List.map_filter mapModel (filter (\<lambda>item. \<not> lacks_id_and_name item) (rawModels payload))"
  by (simp add: mappedModels_def map_filter_drop mapModel_lacking)

lemma mapModel_icon:
  assumes "mapModel item = Some m"
  shows "ownedBy m = (case js_get item ''owned_by'' of Some (JString s) \<Rightarrow> Some s | _ \<Rightarrow> None)"
    and "icon m = resolveOwnedByIcon (ownedBy m)"
  using assms by (auto simp add: mapModel_def Let_def split: option.splits if_splits)

lemma resolveOwnedByIcon_first_match:
  assumes "s \<noteq> []" and "i < length OWNED_BY_ICON_RULES"
    and "match_test (OWNED_BY_ICON_RULES ! i) (toLowerCase s)"
    and "\<forall>j<i. \<not> match_test (OWNED_BY_ICON_RULES ! j) (toLowerCase s)"
  shows "resolveOwnedByIcon (Some s) = Some (icon_path (snd (OWNED_BY_ICON_RULES ! i)))"
proof -
  from assms(2-4)
  have "find (\<lambda>rule. match_test rule (toLowerCase s)) OWNED_BY_ICON_RULES =
      Some (OWNED_BY_ICON_RULES ! i)"
    unfolding find_Some_iff by blast
  with assms(1) show ?thesis
    by (simp add: resolveOwnedByIcon_def)
qed

lemma resolveOwnedByIcon_no_match:
  assumes "\<forall>rule\<in>set OWNED_BY_ICON_RULES. \<not> match_test rule (toLowerCase s)"
  shows "resolveOwnedByIcon (Some s) = None"
proof -
  from assms have "find (\<lambda>rule. match_test rule (toLowerCase s)) OWNED_BY_ICON_RULES = None"
    unfolding find_None_iff by blast
  then show ?thesis
    by (simp add: resolveOwnedByIcon_def)
qed

lemma resolveOwnedByIcon_case:
  assumes "toLowerCase s = toLowerCase t"
  shows "resolveOwnedByIcon (Some s) = resolveOwnedByIcon (Some t)"
proof -
  from assms have "length s = length t"
    unfolding toLowerCase_def by (rule map_eq_imp_length_eq)
  then have "s = [] \<longleftrightarrow> t = []"
    by auto
  with assms show ?thesis
    by (simp add: resolveOwnedByIcon_def)
qed

lemma rawModels_cases:
  "js_get payload ''data'' = Some (JArray xs) \<Longrightarrow> rawModels payload = xs"
  "(\<forall>xs. js_get payload ''data'' \<noteq> Some (JArray xs)) \<Longrightarrow>
     js_get payload ''models'' = Some (JArray ys) \<Longrightarrow> rawModels payload = ys"
  "(\<forall>xs. js_get payload ''data'' \<noteq> Some (JArray xs)) \<Longrightarrow>
     (\<forall>ys. js_get payload ''models'' \<noteq> Some (JArray ys)) \<Longrightarrow> rawModels payload = []"
  by (auto simp add: rawModels_def split: option.splits json.splits)

lemma apply_models_shown:
  assumes "still_current ctx s"
  shows "customModelOptions (apply_models ctx ms s) = ms"
    and "customModelsError (apply_models ctx ms s) = None"
    and "lastLoadedBaseRef (apply_models ctx ms s) = Some (normalizedBase ctx)"
    and "still_current ctx (apply_models ctx ms s)"
    and "setReasoningModelCalls (apply_models ctx ms s) =
      (if ms \<noteq> [] \<and> \<not> list_ex (\<lambda>model. value model = JString (selectedModel ctx)) ms
       then setReasoningModelCalls s @ [value (hd ms)] else setReasoningModelCalls s)"
  using assms
  by (auto simp add: apply_models_def setCustomModelOptions_def setReasoningModel_def Let_def
      still_current_def split: list.splits)


lemma mappedModels_empty_object: "mappedModels (JObject []) = []"
  by (simp add: mappedModels_def rawModels_def List.map_filter_simps)

text \<open>
  C6 (response parsing and mapping). A body that cannot be parsed is handled as the empty
  object: the invocation ends as it does for \<^verbatim>\<open>{}\<close>, with no options and no error.
  The raw list is \<^verbatim>\<open>data\<close> when that is an array, else \<^verbatim>\<open>models\<close> when that is an
  array, else empty. An entry with neither \<^verbatim>\<open>id\<close> nor \<^verbatim>\<open>name\<close> maps to nothing, and
  leaving such entries out does not change the mapped list. A kept entry carries the
  \<^verbatim>\<open>owned_by\<close> string, if there is one, and its icon is resolved from it: no icon for
  a missing or empty owner, the icon of the first rule in the list that matches the
  lower-cased owner, no icon when no rule matches, and the same icon for owners that
  differ in letter case only.
\<close>

theorem payload_reading:
  "resume_json ctx None s = resume_json ctx (Some (JObject [])) s
   \<and> snd (resume_json ctx None s) = Returned
   \<and> (still_current ctx s \<longrightarrow>
        customModelsError (fst (resume_json ctx None s)) = None \<and>
        customModelOptions (fst (resume_json ctx None s)) = [])
   \<and> (js_get payload ''data'' = Some (JArray xs) \<longrightarrow> rawModels payload = xs)
   \<and> ((\<forall>zs. js_get payload ''data'' \<noteq> Some (JArray zs)) \<and>
        js_get payload ''models'' = Some (JArray ys) \<longrightarrow> rawModels payload = ys)
   \<and> ((\<forall>zs. js_get payload ''data'' \<noteq> Some (JArray zs)) \<and>
        (\<forall>zs. js_get payload ''models'' \<noteq> Some (JArray zs)) \<longrightarrow> rawModels payload = [])
   \<and> (lacks_id_and_name item \<longrightarrow> mapModel item = None)
   \<and> mappedModels payload =
        List.map_filter mapModel (filter (\<lambda>item. \<not> lacks_id_and_name item) (rawModels payload))
   \<and> (mapModel item = Some m \<longrightarrow>
        ownedBy m = (case js_get item ''owned_by'' of Some (JString s) \<Rightarrow> Some s | _ \<Rightarrow> None) \<and>
        icon m = resolveOwnedByIcon (ownedBy m))
   \<and> resolveOwnedByIcon None = None
   \<and> resolveOwnedByIcon (Some []) = None
   \<and> (owner \<noteq> [] \<and> i < length OWNED_BY_ICON_RULES \<and>
        match_test (OWNED_BY_ICON_RULES ! i) (toLowerCase owner) \<and>
        (\<forall>j<i. \<not> match_test (OWNED_BY_ICON_RULES ! j) (toLowerCase owner)) \<longrightarrow>
        resolveOwnedByIcon (Some owner) = Some (icon_path (snd (OWNED_BY_ICON_RULES ! i))))
   \<and> ((\<forall>rule\<in>set OWNED_BY_ICON_RULES. \<not> match_test rule (toLowerCase owner)) \<longrightarrow>
        resolveOwnedByIcon (Some owner) = None)
   \<and> (toLowerCase owner = toLowerCase owner' \<longrightarrow>
        resolveOwnedByIcon (Some owner) = resolveOwnedByIcon (Some owner'))"
proof (intro conjI impI)
  show "resume_json ctx None s = resume_json ctx (Some (JObject [])) s"
    and "snd (resume_json ctx None s) = Returned"
    by (simp_all add: resume_json_def)
  show "resolveOwnedByIcon None = None" and "resolveOwnedByIcon (Some []) = None"
    by (simp_all add: resolveOwnedByIcon_def)
  show "mappedModels payload =
        List.map_filter mapModel (filter (\<lambda>item. \<not> lacks_id_and_name item) (rawModels payload))"
    by (rule mappedModels_drops_lacking)
next
  assume "still_current ctx s"
  then show "customModelsError (fst (resume_json ctx None s)) = None"
    and "customModelOptions (fst (resume_json ctx None s)) = []"
    by (simp_all add: resume_json_def finally_block_shown apply_models_shown
        mappedModels_empty_object)
next
  assume "js_get payload ''data'' = Some (JArray xs)"
  then show "rawModels payload = xs"
    by (rule rawModels_cases)
next
  assume "(\<forall>zs. js_get payload ''data'' \<noteq> Some (JArray zs)) \<and>
        js_get payload ''models'' = Some (JArray ys)"
  then show "rawModels payload = ys"
    by (simp add: rawModels_cases)
next
  assume "(\<forall>zs. js_get payload ''data'' \<noteq> Some (JArray zs)) \<and>
        (\<forall>zs. js_get payload ''models'' \<noteq> Some (JArray zs))"
  then show "rawModels payload = []"
    by (simp add: rawModels_cases)
next
  assume "lacks_id_and_name item"
  then show "mapModel item = None"
    by (rule mapModel_lacking)
next
  assume "mapModel item = Some m"
  then show "ownedBy m = (case js_get item ''owned_by'' of Some (JString s) \<Rightarrow> Some s | _ \<Rightarrow> None)"
    and "icon m = resolveOwnedByIcon (ownedBy m)"
    by (rule mapModel_icon)+
next
  assume "owner \<noteq> [] \<and> i < length OWNED_BY_ICON_RULES \<and>
        match_test (OWNED_BY_ICON_RULES ! i) (toLowerCase owner) \<and>
        (\<forall>j<i. \<not> match_test (OWNED_BY_ICON_RULES ! j) (toLowerCase owner))"
  then show "resolveOwnedByIcon (Some owner) = Some (icon_path (snd (OWNED_BY_ICON_RULES ! i)))"
    by (simp add: resolveOwnedByIcon_first_match)
next
  assume "\<forall>rule\<in>set OWNED_BY_ICON_RULES. \<not> match_test rule (toLowerCase owner)"
  then show "resolveOwnedByIcon (Some owner) = None"
    by (rule resolveOwnedByIcon_no_match)
next
  assume "toLowerCase owner = toLowerCase owner'"
  then show "resolveOwnedByIcon (Some owner) = resolveOwnedByIcon (Some owner')"
    by (rule resolveOwnedByIcon_case)
qed

lemma sample_mappedModels:
  "mappedModels sample_payload =
     [\<lparr>value = JString ''m1'', label = JString ''m1'',
       description = Some (JString ''Owner: OpenAI''),
       icon = Some ''/assets/icons/providers/openai.svg'', ownedBy = Some ''OpenAI''\<rparr>,
      \<lparr>value = JString ''mixtral'', label = JString ''mixtral'',
       description = Some (JString ''Owner: Mistral via Google''),
       icon = Some ''/assets/icons/providers/gemini.svg'',
       ownedBy = Some ''Mistral via Google''\<rparr>,
      \<lparr>value = JString ''local'', label = JString ''local'', description = None,
       icon = None, ownedBy = None\<rparr>]"
  by code_simp


lemma sample_rules:
  "match_test (OWNED_BY_ICON_RULES ! 3) (toLowerCase ''Mistral via Google'')"
  "\<not> match_test (OWNED_BY_ICON_RULES ! 0) (toLowerCase ''Mistral via Google'')"
  "\<not> match_test (OWNED_BY_ICON_RULES ! 1) (toLowerCase ''Mistral via Google'')"
  "\<not> match_test (OWNED_BY_ICON_RULES ! 2) (toLowerCase ''Mistral via Google'')"
  "match_test (OWNED_BY_ICON_RULES ! 5) (toLowerCase ''Mistral via Google'')"
  by code_simp+

text \<open>
  A payload with an entry to drop and an owner matched by two rules, of which the earlier
  one decides; a body that could not be parsed.
\<close>

theorem payload_reading_witness:
  "still_current http_ctx http_waiting
   \<and> customModelsError (fst (resume_json http_ctx None http_waiting)) = None
   \<and> customModelOptions (fst (resume_json http_ctx None http_waiting)) = []
   \<and> rawModels (JObject [(''data'', JString ''none''), (''models'', JArray [JNull])]) = [JNull]
   \<and> rawModels (JArray [JObject [(''id'', JString ''m1'')]]) = []
   \<and> lacks_id_and_name (JObject [(''object'', JString ''model'')])
   \<and> mapModel (JObject [(''object'', JString ''model'')]) = None
   \<and> length (rawModels sample_payload) = 5
   \<and> map value (mappedModels sample_payload) = [JString ''m1'', JString ''mixtral'', JString ''local'']
   \<and> map icon (mappedModels sample_payload) =
       [Some ''/assets/icons/providers/openai.svg'', Some ''/assets/icons/providers/gemini.svg'',
        None]
   \<and> match_test (OWNED_BY_ICON_RULES ! 3) (toLowerCase ''Mistral via Google'')
   \<and> match_test (OWNED_BY_ICON_RULES ! 5) (toLowerCase ''Mistral via Google'')
   \<and> \<not> match_test (OWNED_BY_ICON_RULES ! 0) (toLowerCase ''Mistral via Google'')
   \<and> \<not> match_test (OWNED_BY_ICON_RULES ! 1) (toLowerCase ''Mistral via Google'')
   \<and> \<not> match_test (OWNED_BY_ICON_RULES ! 2) (toLowerCase ''Mistral via Google'')
   \<and> resolveOwnedByIcon (Some ''Mistral via Google'') =
       Some (icon_path (snd (OWNED_BY_ICON_RULES ! 3)))
   \<and> toLowerCase ''OPENAI'' = toLowerCase ''openai''
   \<and> resolveOwnedByIcon (Some ''OPENAI'') = resolveOwnedByIcon (Some ''openai'')"
proof -
  have lt: "\<forall>j<3. \<not> match_test (OWNED_BY_ICON_RULES ! j) (toLowerCase ''Mistral via Google'')"
  proof (intro allI impI)
    fix j :: nat
    assume "j < 3"
    then have "j = 0 \<or> j = 1 \<or> j = 2"
      by arith
    then show "\<not> match_test (OWNED_BY_ICON_RULES ! j) (toLowerCase ''Mistral via Google'')"
      using sample_rules by auto
  qed
  have len: "3 < length OWNED_BY_ICON_RULES"
    by (simp add: OWNED_BY_ICON_RULES_def)
  have lower: "toLowerCase ''OPENAI'' = toLowerCase ''openai''"
    by (simp add: toLowerCase_def lower_char_def)
  have cur: "still_current http_ctx http_waiting"
    by (simp add: http_eval)
  have lacks: "lacks_id_and_name (JObject [(''object'', JString ''model'')])"
    by (simp add: lacks_id_and_name_def)
  have raw: "rawModels (JObject [(''data'', JString ''none''), (''models'', JArray [JNull])]) = [JNull]"
    "rawModels (JArray [JObject [(''id'', JString ''m1'')]]) = []"
    "length (rawModels sample_payload) = 5"
    by (simp_all add: rawModels_def sample_payload_def)
  note inst = payload_reading [where ctx = http_ctx and s = http_waiting
      and item = "JObject [(''object'', JString ''model'')]"
      and owner = "''Mistral via Google''" and i = 3
      and owner' = "''openai''" and payload = sample_payload and xs = "[]" and ys = "[]"
      and m = scenario_option]
  note inst2 = payload_reading [where ctx = http_ctx and s = http_waiting
      and item = JNull and owner = "''OPENAI''" and owner' = "''openai''" and i = 0
      and payload = sample_payload and xs = "[]" and ys = "[]" and m = scenario_option]
  from inst cur lacks lt len sample_rules(1) lower
  have derived:
    "customModelsError (fst (resume_json http_ctx None http_waiting)) = None"
    "customModelOptions (fst (resume_json http_ctx None http_waiting)) = []"
    "mapModel (JObject [(''object'', JString ''model'')]) = None"
    "resolveOwnedByIcon (Some ''Mistral via Google'') =
       Some (icon_path (snd (OWNED_BY_ICON_RULES ! 3)))"
    by blast+
  from inst2 lower
  have same: "resolveOwnedByIcon (Some ''OPENAI'') = resolveOwnedByIcon (Some ''openai'')"
    by blast
  from derived same cur lacks lower raw sample_rules show ?thesis
    by (simp add: sample_mappedModels)
qed




subsection \<open>The list shown while the base field is dirty\<close>

lemma displayedCustomModels_dirty:
  "displayedCustomModels p s = (if isCustomBaseDirty p s then [] else customModelOptions s)"
  by (simp add: displayedCustomModels_def)

text \<open>
  Typing into the base field changes no dependency of \<^verbatim>\<open>selectedCloudModels\<close>: the
  render after the keystroke returns what the render before it had stored.
\<close>

lemma selectedCloudModels_ignores_edit:
  "selectedCloudModels REASONING_PROVIDERS p (onChange_customBaseInput text s)
     (Some (selectedCloudModels REASONING_PROVIDERS p s previous)) =
   selectedCloudModels REASONING_PROVIDERS p s previous"
  by (simp add: selectedCloudModels_def onChange_customBaseInput_def Let_def
      split: option.split)

text \<open>
  C8 (dirty-base display reset) does not hold of what the component displays. After the
  user has typed another base into the field, the field is dirty and
  \<^verbatim>\<open>displayedCustomModels\<close> is empty, but the list handed to the model picker is
  \<^verbatim>\<open>selectedCloudModels\<close>, whose dependency list names \<^verbatim>\<open>customModelOptions\<close> and
  not \<^verbatim>\<open>displayedCustomModels\<close>: nothing it depends on has changed, so the picker
  keeps the models loaded for the saved base.
\<close>

theorem picker_keeps_models_after_edit:
  "snd (handleCloudProviderChange spec_constants sample_registry http_props ''custom''
       edit_mounted) = AwaitsGetOpenAIKey http_ctx
   \<and> customModelOptions edit_loaded = [scenario_option]
   \<and> \<not> isCustomBaseDirty http_props edit_loaded
   \<and> memo_value render_loaded = [scenario_option]
   \<and> isCustomBaseDirty http_props edit_typed
   \<and> displayedCustomModels http_props edit_typed = []
   \<and> memo_value render_typed = [scenario_option]"
  by code_simp

end
